theory Spec2Isabelle
  imports Complex_Main "HOL-Library.AList" "HOL-Library.Multiset"
begin

section \<open>Conventions of the embedding\<close>

text \<open>
  The two modules embedded here are \<^verbatim>\<open>spatial_optimizer.py\<close> (the layout planner
  \<^verbatim>\<open>generate_layout\<close>) and \<^verbatim>\<open>vastu_engine.py\<close> (the drafting engine
  \<^verbatim>\<open>generate_ai_detailed_plan\<close> with its helpers).

  Python floats are read in two ways. In the exact reading every arithmetic operation of
  the source is the exact operation on \<^typ>\<open>real\<close>. In the rounded reading of the
  planner (\<open>generate_layout_fl\<close>, further below) every operation rounds its result with
  a rounding function, which is where the effects of IEEE double precision are visible.
  A float division by zero is a value of the error type. A \<^verbatim>\<open>Room\<close> object is a record value; the planner's in-place assignment
  of \<^verbatim>\<open>current_poly\<close> and \<^verbatim>\<open>center\<close> is a record update of the room that is appended
  to the result, so two requests are always two distinct objects.
\<close>

datatype py_error = ZeroDivisionError | KeyError | TypeError

type_synonym point = "real \<times> real"

subsection \<open>Strings: \<^verbatim>\<open>str.lower\<close> and the substring test \<^verbatim>\<open>in\<close>\<close>

text \<open>ASCII letters \<^verbatim>\<open>A\<close>..\<^verbatim>\<open>Z\<close> (codes 65..90) get bit 5 set; every other byte is kept.\<close>

fun lower_char :: "char \<Rightarrow> char" where
  "lower_char (Char b0 b1 b2 b3 b4 b5 b6 b7) =
     (let n = (of_char (Char b0 b1 b2 b3 b4 b5 b6 b7) :: nat)
      in if 65 \<le> n \<and> n \<le> 90 then Char b0 b1 b2 b3 b4 True b6 b7
         else Char b0 b1 b2 b3 b4 b5 b6 b7)"

definition lower :: "string \<Rightarrow> string" where
  "lower s = map lower_char s"

fun startswith :: "string \<Rightarrow> string \<Rightarrow> bool" where
  "startswith s [] = True"
| "startswith [] (p # ps) = False"
| "startswith (c # cs) (p # ps) = (c = p \<and> startswith cs ps)"

text \<open>\<open>isin sub s\<close> is Python's \<^verbatim>\<open>sub in s\<close> on strings.\<close>

fun isin :: "string \<Rightarrow> string \<Rightarrow> bool" where
  "isin sub [] = (sub = [])"
| "isin sub (c # cs) = (startswith (c # cs) sub \<or> isin sub cs)"

subsection \<open>Shapely's \<^verbatim>\<open>box\<close>\<close>

text \<open>
  The only polygons the program builds are \<^verbatim>\<open>box(minx, miny, maxx, maxy)\<close>. The value keeps
  the four arguments as given; \<open>exterior_coords\<close> is the closed ring of five vertices that
  Shapely produces for a box (counter-clockwise, starting at \<open>(maxx, miny)\<close>), \<open>bounds\<close>
  the coordinate-wise minimum and maximum of the ring, \<open>centroid\<close> the centre. For a
  box with \<open>minx = maxx\<close> a Shapely version may leave out the closing vertex, the four
  vertices already forming a closed ring; the ring here always has five, which adds one
  edge of length zero to such a room.
\<close>

datatype Polygon = Box real real real real

fun box :: "real \<Rightarrow> real \<Rightarrow> real \<Rightarrow> real \<Rightarrow> Polygon" where
  "box minx miny maxx maxy = Box minx miny maxx maxy"

fun exterior_coords :: "Polygon \<Rightarrow> point list" where
  "exterior_coords (Box minx miny maxx maxy) =
     [(maxx, miny), (maxx, maxy), (minx, maxy), (minx, miny), (maxx, miny)]"

fun bounds :: "Polygon \<Rightarrow> real \<times> real \<times> real \<times> real" where
  "bounds (Box x0 y0 x1 y1) = (min x0 x1, min y0 y1, max x0 x1, max y0 y1)"

fun centroid :: "Polygon \<Rightarrow> point" where
  "centroid (Box x0 y0 x1 y1) = ((x0 + x1) / 2, (y0 + y1) / 2)"

subsection \<open>Data models\<close>

record Room =
  name :: string
  min_w :: real
  min_d :: real
  max_w :: real
  max_d :: real
  priority :: int
  layer :: string
  current_poly :: "Polygon option"
  center :: "point option"

record VastuConstraint =
  room_name :: string
  allowed :: "string list"
  forbidden :: "string list"

text \<open>The constructor \<^verbatim>\<open>Room(name, min_dim, max_dim, priority=1, layer="A-WALL")\<close>.\<close>

definition mk_Room :: "string \<Rightarrow> real \<times> real \<Rightarrow> real \<times> real \<Rightarrow> Room" where
  "mk_Room n min_dim max_dim =
     \<lparr>name = n, min_w = fst min_dim, min_d = snd min_dim,
      max_w = fst max_dim, max_d = snd max_dim,
      priority = 1, layer = ''A-WALL'', current_poly = None, center = None\<rparr>"

section \<open>The layout planner: \<^verbatim>\<open>generate_layout\<close>\<close>

text \<open>Step 1, the row of a room: the test of the \<^verbatim>\<open>if\<close> on the lower-cased name.\<close>

definition is_top :: "Room \<Rightarrow> bool" where
  "is_top room =
     (let n = lower (name room)
      in isin ''living'' n \<or> isin ''hall'' n \<or> isin ''toilet'' n \<or> isin ''bath'' n
         \<or> isin ''north'' n \<or> isin ''nw'' n \<or> isin ''ne'' n)"

text \<open>Step 2, the local function \<^verbatim>\<open>sort_key\<close> (left-to-right order).\<close>

definition sort_key_fn :: "Room \<Rightarrow> nat" where
  "sort_key_fn r =
     (let n = lower (name r)
      in if isin ''toilet'' n then 0
         else if isin ''living'' n then 1
         else if isin ''master'' n then 0
         else if isin ''kitchen'' n then 1
         else 2)"

text \<open>
  One row loop (\<^verbatim>\<open>for i, room in enumerate(rooms)\<close>). \<open>y0\<close>, \<open>y1\<close> are the row's vertical
  extent, \<open>current_x\<close> the running offset. The test \<^verbatim>\<open>i == len(rooms) - 1\<close> holds exactly
  at the last element, that is when no room follows. The division by the row's total
  width raises \<^verbatim>\<open>ZeroDivisionError\<close> when that total is zero.
\<close>

fun place_row :: "real \<Rightarrow> real \<Rightarrow> real \<Rightarrow> real \<Rightarrow> real \<Rightarrow> Room list \<Rightarrow> py_error + Room list" where
  "place_row p_w total_w y0 y1 current_x [] = Inr []"
| "place_row p_w total_w y0 y1 current_x (room # rest) =
     (if total_w = 0 then Inl ZeroDivisionError
      else
        let w_req = (min_w room + max_w room) / 2;
            render_w = (w_req / total_w) * p_w;
            end_x = (if rest = [] then p_w else current_x + render_w);
            poly = box current_x y0 end_x y1;
            room' = room\<lparr>current_poly := Some poly, center := Some (centroid poly)\<rparr>
        in case place_row p_w total_w y0 y1 end_x rest of
             Inl e \<Rightarrow> Inl e
           | Inr placed \<Rightarrow> Inr (room' # placed))"

definition avg_d :: "Room list \<Rightarrow> real" where
  "avg_d rooms =
     (if rooms = [] then 0
      else sum_list (map (\<lambda>r. (min_d r + max_d r) / 2) rooms) / real (length rooms))"

definition total_w :: "Room list \<Rightarrow> real" where
  "total_w rooms =
     (if rooms = [] then 1 else sum_list (map (\<lambda>r. (min_w r + max_w r) / 2) rooms))"

definition top_rooms_of :: "Room list \<Rightarrow> Room list" where
  "top_rooms_of requirements = sort_key sort_key_fn (filter is_top requirements)"

definition bottom_rooms_of :: "Room list \<Rightarrow> Room list" where
  "bottom_rooms_of requirements = sort_key sort_key_fn (filter (\<lambda>r. \<not> is_top r) requirements)"

definition h_top_of :: "real \<Rightarrow> Room list \<Rightarrow> real" where
  "h_top_of p_d requirements =
     (let avg_d_top = avg_d (top_rooms_of requirements);
          avg_d_bottom = avg_d (bottom_rooms_of requirements);
          total_avg_d = avg_d_top + avg_d_bottom;
          total_avg_d = (if total_avg_d = 0 then 1 else total_avg_d)
      in (avg_d_top / total_avg_d) * p_d)"

definition h_bottom_of :: "real \<Rightarrow> Room list \<Rightarrow> real" where
  "h_bottom_of p_d requirements = p_d - h_top_of p_d requirements"

text \<open>
  The planner. The bottom row is processed first and anchored at \<open>y = 0\<close>, the top row
  second, from \<open>h_bottom\<close> to \<open>p_d\<close>; the result lists the bottom row, then the top row.
  The argument \<open>constraints\<close> is accepted and, as in the source, not read.
\<close>

definition generate_layout ::
    "real \<times> real \<Rightarrow> Room list \<Rightarrow> VastuConstraint list \<Rightarrow> py_error + Room list" where
  "generate_layout plot_size requirements constraints =
     (let p_w = fst plot_size; p_d = snd plot_size;
          top_rooms = top_rooms_of requirements;
          bottom_rooms = bottom_rooms_of requirements;
          h_bottom = h_bottom_of p_d requirements
      in case place_row p_w (total_w bottom_rooms) 0 h_bottom 0 bottom_rooms of
           Inl e \<Rightarrow> Inl e
         | Inr placed_bottom \<Rightarrow>
             (case place_row p_w (total_w top_rooms) h_bottom p_d 0 top_rooms of
                Inl e \<Rightarrow> Inl e
              | Inr placed_top \<Rightarrow> Inr (placed_bottom @ placed_top)))"

section \<open>The drafting engine: \<^verbatim>\<open>vastu_engine.py\<close>\<close>

subsection \<open>The drawing\<close>

text \<open>
  The modelspace \<^verbatim>\<open>msp\<close> is the list of entities added so far, in the order of the calls;
  every \<^verbatim>\<open>msp.add_...\<close> appends one entity. The layer is the \<^verbatim>\<open>'layer'\<close> attribute. A
  label printed with \<^verbatim>\<open>f"{v:.2f}m"\<close> keeps the number \<open>v\<close> itself.
\<close>

datatype text_value = Str string | Metres2 real

datatype entity =
    Line point point string
  | Hatch string string real "point list"
  | Arc point real real real string string
  | Text text_value real string "nat option" point
  | LinearDim point point point string
  | Circle point real string
  | Solid "point list" string

datatype seg_type = Exterior | Interior

type_synonym segment = "point \<times> point"

subsection \<open>Numeric helpers of the Python library\<close>

text \<open>\<^verbatim>\<open>round(x, 3)\<close>: the nearest multiple of \<open>1/1000\<close>, a tie going to the even one.\<close>

definition round_half_even :: "real \<Rightarrow> int" where
  "round_half_even x =
     (let f = \<lfloor>x\<rfloor>; d = x - of_int f
      in if d < 1 / 2 then f
         else if 1 / 2 < d then f + 1
         else if even f then f else f + 1)"

definition round3 :: "real \<Rightarrow> real" where
  "round3 x = of_int (round_half_even (x * 1000)) / 1000"

text \<open>\<^verbatim>\<open>math.sqrt(dx**2 + dy**2)\<close> and \<^verbatim>\<open>math.dist\<close>.\<close>

definition seg_length :: "point \<Rightarrow> point \<Rightarrow> real" where
  "seg_length p1 p2 = sqrt ((fst p2 - fst p1)\<^sup>2 + (snd p2 - snd p1)\<^sup>2)"

definition dist_pt :: "point \<Rightarrow> point \<Rightarrow> real" where
  "dist_pt p q = sqrt ((fst p - fst q)\<^sup>2 + (snd p - snd q)\<^sup>2)"

text \<open>\<^verbatim>\<open>math.degrees(math.atan2(y, x))\<close>.\<close>

definition atan2 :: "real \<Rightarrow> real \<Rightarrow> real" where
  "atan2 y x =
     (if 0 < x then arctan (y / x)
      else if x < 0 then (if 0 \<le> y then arctan (y / x) + pi else arctan (y / x) - pi)
      else if 0 < y then pi / 2
      else if y < 0 then - (pi / 2)
      else 0)"

definition degrees :: "real \<Rightarrow> real" where
  "degrees a = a * 180 / pi"

subsection \<open>Segment canonicalization and classification\<close>

text \<open>
  Python compares tuples lexicographically; \<^verbatim>\<open>sorted\<close> of a two-element list swaps the
  elements exactly when the second is smaller than the first.
\<close>

definition pt_less :: "point \<Rightarrow> point \<Rightarrow> bool" where
  "pt_less a b = (fst a < fst b \<or> (fst a = fst b \<and> snd a < snd b))"

definition sorted_pair :: "point \<Rightarrow> point \<Rightarrow> segment" where
  "sorted_pair a b = (if pt_less b a then (b, a) else (a, b))"

definition canonical_seg :: "point \<Rightarrow> point \<Rightarrow> segment" where
  "canonical_seg p1 p2 =
     sorted_pair (round3 (fst p1), round3 (snd p1)) (round3 (fst p2), round3 (snd p2))"

definition is_ext_edge :: "real \<Rightarrow> real \<Rightarrow> point \<Rightarrow> point \<Rightarrow> bool" where
  "is_ext_edge plot_width plot_height p1 p2 =
     ((fst p1 \<le> 0.01 \<and> fst p2 \<le> 0.01)
      \<or> (plot_width - 0.01 \<le> fst p1 \<and> plot_width - 0.01 \<le> fst p2)
      \<or> (snd p1 \<le> 0.01 \<and> snd p2 \<le> 0.01)
      \<or> (plot_height - 0.01 \<le> snd p1 \<and> plot_height - 0.01 \<le> snd p2))"

text \<open>
  The dictionaries \<^verbatim>\<open>drawn_segments\<close> and \<^verbatim>\<open>room_segments\<close> are association lists in
  insertion order: assigning to a key that is present keeps its position, a new key goes
  to the end, which is what \<open>AList.update\<close> does.
\<close>

type_synonym drawn_segments = "(segment \<times> seg_type) list"
type_synonym room_segments = "(string \<times> segment list) list"

text \<open>The edges \<^verbatim>\<open>(points[i], points[i+1])\<close> for \<^verbatim>\<open>i in range(len(points) - 1)\<close>.\<close>

definition edges_of :: "point list \<Rightarrow> (point \<times> point) list" where
  "edges_of points = zip points (tl points)"

text \<open>The body of the inner loop of step 1 on the segment map.\<close>

definition record_segment ::
    "real \<Rightarrow> real \<Rightarrow> drawn_segments \<Rightarrow> point \<times> point \<Rightarrow> drawn_segments" where
  "record_segment plot_width plot_height drawn e =
     (let seg = canonical_seg (fst e) (snd e);
          is_ext = is_ext_edge plot_width plot_height (fst e) (snd e)
      in case map_of drawn seg of
           None \<Rightarrow> AList.update seg (if is_ext then Exterior else Interior) drawn
         | Some t \<Rightarrow> if is_ext then AList.update seg Exterior drawn else drawn)"

fun segment_analysis ::
    "real \<Rightarrow> real \<Rightarrow> Room list \<Rightarrow> drawn_segments \<times> room_segments
       \<Rightarrow> drawn_segments \<times> room_segments" where
  "segment_analysis plot_width plot_height [] st = st"
| "segment_analysis plot_width plot_height (room # rooms) (drawn, rsegs) =
     (case current_poly room of
        None \<Rightarrow> segment_analysis plot_width plot_height rooms (drawn, rsegs)
      | Some poly \<Rightarrow>
          let edges = edges_of (exterior_coords poly);
              rsegs' = AList.update (name room)
                         (map (\<lambda>e. canonical_seg (fst e) (snd e)) edges) rsegs;
              drawn' = foldl (record_segment plot_width plot_height) drawn edges
          in segment_analysis plot_width plot_height rooms (drawn', rsegs'))"

subsection \<open>Walls\<close>

definition draw_wall_with_hatch ::
    "entity list \<Rightarrow> point \<Rightarrow> point \<Rightarrow> real \<Rightarrow> (real \<times> real) option \<Rightarrow> entity list" where
  "draw_wall_with_hatch msp p1 p2 thickness offset_dir =
     (let dx = fst p2 - fst p1; dy = snd p2 - snd p1;
          L = sqrt (dx\<^sup>2 + dy\<^sup>2)
      in if L < 0.001 then msp
         else
           let ux = dx / L; uy = dy / L;
               nx = - uy; ny = ux;
               (o1, o2, i1, i2) =
                 (case offset_dir of
                    None \<Rightarrow>
                      ((fst p1 + nx * thickness / 2, snd p1 + ny * thickness / 2),
                       (fst p2 + nx * thickness / 2, snd p2 + ny * thickness / 2),
                       (fst p1 - nx * thickness / 2, snd p1 - ny * thickness / 2),
                       (fst p2 - nx * thickness / 2, snd p2 - ny * thickness / 2))
                  | Some d \<Rightarrow>
                      (p1, p2,
                       (fst p1 + fst d * thickness, snd p1 + snd d * thickness),
                       (fst p2 + fst d * thickness, snd p2 + snd d * thickness)))
           in msp @ [Line o1 o2 ''A-WALL'', Line i1 i2 ''A-WALL'',
                     Hatch ''A-WALL-PATT'' ''ANSI31'' 0.01 [o1, o2, i2, i1, o1]])"

definition WALL_THICKNESS :: real where
  "WALL_THICKNESS = 0.23"

text \<open>The direction \<open>(vx, vy)\<close> chosen in step 2 for an exterior segment, from its first endpoint.\<close>

definition offset_dir_of :: "real \<Rightarrow> real \<Rightarrow> point \<Rightarrow> real \<times> real" where
  "offset_dir_of plot_width plot_height p1 =
     (if fst p1 \<le> 0.01 then (1, 0)
      else if plot_width - 0.01 \<le> fst p1 then (- 1, 0)
      else if snd p1 \<le> 0.01 then (0, 1)
      else if plot_height - 0.01 \<le> snd p1 then (0, - 1)
      else (0, 0))"

definition draw_segment ::
    "real \<Rightarrow> real \<Rightarrow> entity list \<Rightarrow> segment \<times> seg_type \<Rightarrow> entity list" where
  "draw_segment plot_width plot_height msp item =
     (let seg = fst item; s_type = snd item; p1 = fst seg; p2 = snd seg
      in if s_type = Exterior
         then draw_wall_with_hatch msp p1 p2 WALL_THICKNESS
                (Some (offset_dir_of plot_width plot_height p1))
         else draw_wall_with_hatch msp p1 p2 WALL_THICKNESS None)"

definition draw_walls :: "real \<Rightarrow> real \<Rightarrow> entity list \<Rightarrow> drawn_segments \<Rightarrow> entity list" where
  "draw_walls plot_width plot_height msp drawn =
     foldl (draw_segment plot_width plot_height) msp drawn"

subsection \<open>Doors\<close>

text \<open>
  \<^verbatim>\<open>add_door_swing\<close> returns the modelspace and the Boolean result. The divisions by \<open>L\<close>
  come after the length test; they raise when \<open>L\<close> is zero, which needs
  \<open>width + 0.2 \<le> 0\<close>.
\<close>

definition add_door_swing ::
    "entity list \<Rightarrow> point \<Rightarrow> point \<Rightarrow> real \<Rightarrow> py_error + (entity list \<times> bool)" where
  "add_door_swing msp p1 p2 width =
     (let dx = fst p2 - fst p1; dy = snd p2 - snd p1;
          L = sqrt (dx\<^sup>2 + dy\<^sup>2)
      in if L < width + 0.2 then Inr (msp, False)
         else if L = 0 then Inl ZeroDivisionError
         else
           let mx = (fst p1 + fst p2) / 2; my = (snd p1 + snd p2) / 2;
               ux = dx / L; uy = dy / L;
               p_start = (mx - ux * width / 2, my - uy * width / 2);
               nx = - uy; ny = ux;
               leaf_end = (fst p_start + nx * width, snd p_start + ny * width);
               angle_leaf = degrees (atan2 ny nx);
               angle_open = degrees (atan2 uy ux)
           in Inr (msp @ [Line p_start leaf_end ''A-DOOR'',
                          Arc p_start width angle_open angle_leaf ''A-DOOR-SWING'' ''DASHED''],
                   True))"

text \<open>
  The inner loop of step 3 over one room's sorted segments. \<^verbatim>\<open>drawn_segments[seg]\<close> raises
  \<^verbatim>\<open>KeyError\<close> on a missing key; a successful door adds the segment to
  \<^verbatim>\<open>placed_doors\<close> and leaves the loop (\<^verbatim>\<open>break\<close>).
\<close>

fun try_segments ::
    "entity list \<Rightarrow> drawn_segments \<Rightarrow> segment set \<Rightarrow> segment list
       \<Rightarrow> py_error + (entity list \<times> segment set)" where
  "try_segments msp drawn placed_doors [] = Inr (msp, placed_doors)"
| "try_segments msp drawn placed_doors (seg # segs) =
     (case map_of drawn seg of
        None \<Rightarrow> Inl KeyError
      | Some t \<Rightarrow>
          if t = Interior \<and> seg \<notin> placed_doors then
            (case add_door_swing msp (fst seg) (snd seg) 0.9 of
               Inl e \<Rightarrow> Inl e
             | Inr (msp', ok) \<Rightarrow>
                 if ok then Inr (msp', insert seg placed_doors)
                 else try_segments msp' drawn placed_doors segs)
          else try_segments msp drawn placed_doors segs)"

text \<open>
  \<^verbatim>\<open>segments.sort(key=lambda s: math.dist(s[0], s[1]), reverse=True)\<close>: a stable sort,
  longest first, segments of equal length in their original order.
\<close>

definition sort_longest_first :: "segment list \<Rightarrow> segment list" where
  "sort_longest_first segments = sort_key (\<lambda>s. - dist_pt (fst s) (snd s)) segments"

fun place_doors ::
    "entity list \<Rightarrow> drawn_segments \<Rightarrow> segment set \<Rightarrow> room_segments
       \<Rightarrow> py_error + (entity list \<times> segment set)" where
  "place_doors msp drawn placed_doors [] = Inr (msp, placed_doors)"
| "place_doors msp drawn placed_doors (item # items) =
     (case try_segments msp drawn placed_doors (sort_longest_first (snd item)) of
        Inl e \<Rightarrow> Inl e
      | Inr (msp', placed_doors') \<Rightarrow> place_doors msp' drawn placed_doors' items)"

subsection \<open>Annotations\<close>

definition add_dimension :: "entity list \<Rightarrow> point \<Rightarrow> point \<Rightarrow> point \<Rightarrow> entity list" where
  "add_dimension msp p1 p2 base_point = msp @ [LinearDim base_point p1 p2 ''A-ANNO-DIMS'']"

definition draw_north_arrow :: "entity list \<Rightarrow> real \<Rightarrow> real \<Rightarrow> real \<Rightarrow> entity list" where
  "draw_north_arrow msp x y sz =
     (let arrow_top = (x, y + sz / 2);
          arrow_left = (x - sz / 4, y - sz / 4);
          arrow_right = (x + sz / 4, y - sz / 4)
      in msp @ [Circle (x, y) (sz / 2) ''A-ANNO-NRTH'',
                Text (Str ''N'') (sz / 2) ''A-ANNO-NRTH'' None (x, y + sz / 2 + 0.15),
                Solid [arrow_top, arrow_left, arrow_right] ''A-ANNO-NRTH''])"

text \<open>
  The body of the loop of step 4 for one room. Unpacking \<^verbatim>\<open>room.center\<close> raises
  \<^verbatim>\<open>TypeError\<close> when it is \<^verbatim>\<open>None\<close>.
\<close>

definition annotate_room :: "entity list \<Rightarrow> Room \<Rightarrow> py_error + entity list" where
  "annotate_room msp room =
     (case current_poly room of
        None \<Rightarrow> Inr msp
      | Some poly \<Rightarrow>
          (case center room of
             None \<Rightarrow> Inl TypeError
           | Some (cx, cy) \<Rightarrow>
               (case bounds poly of (minx, miny, maxx, maxy) \<Rightarrow>
                  let rw = maxx - minx; rd = maxy - miny;
                      msp1 = msp @ [Text (Str (name room)) (min rw rd * 0.08)
                                      ''A-ANNO-TEXT'' None (cx, cy)];
                      msp2 = (if miny \<le> 0.01
                              then add_dimension msp1 (minx, miny) (maxx, miny) (cx, - 2.2)
                                   @ [Text (Metres2 rw) 0.4 ''A-ANNO-DIMS'' (Some 6) (cx, - 2.5)]
                              else msp1);
                      msp3 = (if minx \<le> 0.01
                              then add_dimension msp2 (minx, miny) (minx, maxy) (- 2.2, cy)
                                   @ [Text (Metres2 rd) 0.4 ''A-ANNO-DIMS'' (Some 6) (- 2.5, cy)]
                              else msp2)
                  in Inr msp3)))"

fun annotate :: "entity list \<Rightarrow> Room list \<Rightarrow> py_error + entity list" where
  "annotate msp [] = Inr msp"
| "annotate msp (room # rooms) =
     (case annotate_room msp room of
        Inl e \<Rightarrow> Inl e
      | Inr msp' \<Rightarrow> annotate msp' rooms)"

subsection \<open>The main generation engine\<close>

text \<open>
  The result is the modelspace at the point where the source audits and serialises the
  document; the layer table, the audit and the file handling are the CAD library's and are
  not part of the value. \<open>client_name\<close> only names the temporary file.
\<close>

definition generate_ai_detailed_plan ::
    "Room list \<Rightarrow> real \<Rightarrow> real \<Rightarrow> string \<Rightarrow> py_error + entity list" where
  "generate_ai_detailed_plan rooms plot_width plot_height client_name =
     (let (drawn_segments, room_segments) =
            segment_analysis plot_width plot_height rooms ([], []);
          msp = draw_walls plot_width plot_height [] drawn_segments
      in case place_doors msp drawn_segments {} room_segments of
           Inl e \<Rightarrow> Inl e
         | Inr (msp', placed_doors) \<Rightarrow>
             (case annotate msp' rooms of
                Inl e \<Rightarrow> Inl e
              | Inr msp'' \<Rightarrow>
                  Inr (draw_north_arrow msp'' (plot_width + 2) (plot_height - 1) 1.5)))"

section \<open>The planner with rounded arithmetic\<close>

text \<open>
  A second reading of \<^verbatim>\<open>generate_layout\<close>, in which every floating-point operation of
  the source rounds its exact result with a function \<open>rnd\<close>: \<open>a + b\<close> is
  \<open>rnd (a + b)\<close>, and likewise for subtraction, multiplication and division, in the
  order in which Python evaluates them. \<^verbatim>\<open>sum\<close> adds from the left, starting at \<open>0\<close>
  (newer interpreters carry a compensation term in \<^verbatim>\<open>sum\<close>; on the input evaluated
  below both ways give the total \<open>0.5\<close>). The centre of a rectangle is its exact
  midpoint, as in the exact reading; no property of the rounded reading mentions it.
  With \<open>rnd\<close> the identity this is the exact reading above; with \<open>rnd = fl\<close> it is
  IEEE 754 double precision.
\<close>

text \<open>
  \<open>fl\<close> rounds a real number to the nearest number with a 53-bit significand, a tie
  going to the even significand (binary64, round-to-nearest-even). The exponent is
  unbounded: overflow and subnormal numbers are not part of the model.
\<close>

definition fl :: "real \<Rightarrow> real" where
  "fl x =
     (if x = 0 then 0
      else let e = \<lfloor>log 2 \<bar>x\<bar>\<rfloor>; u = 2 powr (of_int e - 52)
           in of_int (round_half_even (x / u)) * u)"

definition w_req_fl :: "(real \<Rightarrow> real) \<Rightarrow> Room \<Rightarrow> real" where
  "w_req_fl rnd r = rnd (rnd (min_w r + max_w r) / 2)"

definition d_req_fl :: "(real \<Rightarrow> real) \<Rightarrow> Room \<Rightarrow> real" where
  "d_req_fl rnd r = rnd (rnd (min_d r + max_d r) / 2)"

definition sum_fl :: "(real \<Rightarrow> real) \<Rightarrow> real list \<Rightarrow> real" where
  "sum_fl rnd vs = foldl (\<lambda>s v. rnd (s + v)) 0 vs"

fun place_row_fl ::
    "(real \<Rightarrow> real) \<Rightarrow> real \<Rightarrow> real \<Rightarrow> real \<Rightarrow> real \<Rightarrow> real \<Rightarrow> Room list
       \<Rightarrow> py_error + Room list" where
  "place_row_fl rnd p_w tot_w y0 y1 current_x [] = Inr []"
| "place_row_fl rnd p_w tot_w y0 y1 current_x (room # rest) =
     (if tot_w = 0 then Inl ZeroDivisionError
      else
        let w_req = w_req_fl rnd room;
            render_w = rnd (rnd (w_req / tot_w) * p_w);
            end_x = (if rest = [] then p_w else rnd (current_x + render_w));
            poly = box current_x y0 end_x y1;
            room' = room\<lparr>current_poly := Some poly, center := Some (centroid poly)\<rparr>
        in case place_row_fl rnd p_w tot_w y0 y1 end_x rest of
             Inl e \<Rightarrow> Inl e
           | Inr placed \<Rightarrow> Inr (room' # placed))"

definition avg_d_fl :: "(real \<Rightarrow> real) \<Rightarrow> Room list \<Rightarrow> real" where
  "avg_d_fl rnd rooms =
     (if rooms = [] then 0
      else rnd (sum_fl rnd (map (d_req_fl rnd) rooms) / real (length rooms)))"

definition total_w_fl :: "(real \<Rightarrow> real) \<Rightarrow> Room list \<Rightarrow> real" where
  "total_w_fl rnd rooms =
     (if rooms = [] then 1 else sum_fl rnd (map (w_req_fl rnd) rooms))"

definition h_top_fl :: "(real \<Rightarrow> real) \<Rightarrow> real \<Rightarrow> Room list \<Rightarrow> real" where
  "h_top_fl rnd p_d requirements =
     (let avg_d_top = avg_d_fl rnd (top_rooms_of requirements);
          avg_d_bottom = avg_d_fl rnd (bottom_rooms_of requirements);
          total_avg_d = rnd (avg_d_top + avg_d_bottom);
          total_avg_d = (if total_avg_d = 0 then 1 else total_avg_d)
      in rnd (rnd (avg_d_top / total_avg_d) * p_d))"

definition h_bottom_fl :: "(real \<Rightarrow> real) \<Rightarrow> real \<Rightarrow> Room list \<Rightarrow> real" where
  "h_bottom_fl rnd p_d requirements = rnd (p_d - h_top_fl rnd p_d requirements)"

definition generate_layout_fl ::
    "(real \<Rightarrow> real) \<Rightarrow> real \<times> real \<Rightarrow> Room list \<Rightarrow> VastuConstraint list
       \<Rightarrow> py_error + Room list" where
  "generate_layout_fl rnd plot_size requirements constraints =
     (let p_w = fst plot_size; p_d = snd plot_size;
          top_rooms = top_rooms_of requirements;
          bottom_rooms = bottom_rooms_of requirements;
          h_bottom = h_bottom_fl rnd p_d requirements
      in case place_row_fl rnd p_w (total_w_fl rnd bottom_rooms) 0 h_bottom 0 bottom_rooms of
           Inl e \<Rightarrow> Inl e
         | Inr placed_bottom \<Rightarrow>
             (case place_row_fl rnd p_w (total_w_fl rnd top_rooms) h_bottom p_d 0 top_rooms of
                Inl e \<Rightarrow> Inl e
              | Inr placed_top \<Rightarrow> Inr (placed_bottom @ placed_top)))"

section \<open>Vocabulary of the properties\<close>

text \<open>The example scenario: the four requests, with their minimum and maximum dimensions.\<close>

definition example_rooms :: "Room list" where
  "example_rooms =
     [mk_Room ''Living'' (3.6, 4.0) (5.4, 6.0),
      mk_Room ''Kitchen'' (2.4, 2.8) (3.6, 4.2),
      mk_Room ''MasterBed'' (3.2, 3.6) (4.8, 5.4),
      mk_Room ''Toilet'' (1.44, 2.0) (2.16, 3.0)]"

text \<open>The names of the placed rooms whose rectangle has its lower edge at height \<open>y\<close>.\<close>

definition row_at :: "real \<Rightarrow> Room list \<Rightarrow> string list" where
  "row_at y placed =
     map name (filter (\<lambda>r. case current_poly r of
                              None \<Rightarrow> False
                            | Some p \<Rightarrow> fst (snd (bounds p)) = y) placed)"

text \<open>
  A single room that fills the plot \<open>12 \<times> 15\<close>, as the planner places the one request
  \<^verbatim>\<open>Room("Hall", (3, 3), (5, 5))\<close>.
\<close>

definition full_plot_room :: Room where
  "full_plot_room =
     (mk_Room ''Hall'' (3, 3) (5, 5))
       \<lparr>current_poly := Some (box 0 0 12 15), center := Some (6, 15 / 2)\<rparr>"









text \<open>The value of \<^verbatim>\<open>end_x\<close> in one iteration of the row loop.\<close>

definition end_x_of :: "real \<Rightarrow> real \<Rightarrow> real \<Rightarrow> Room \<Rightarrow> Room list \<Rightarrow> real" where
  "end_x_of p_w tw x r rest =
     (if rest = [] then p_w else x + ((min_w r + max_w r) / 2 / tw) * p_w)"

text \<open>
  Three requests for one row, as Python reads
  \<^verbatim>\<open>Room("A", (0.1, 1.0), (0.1, 1.0))\<close>, \<^verbatim>\<open>Room("B", (0.4, 1.0), (0.4, 1.0))\<close> and
  \<^verbatim>\<open>Room("C", (1e-17, 1.0), (1e-17, 1.0))\<close>: each decimal literal is the double nearest
  to it.
\<close>

definition overshoot_rooms :: "Room list" where
  "overshoot_rooms =
     [mk_Room ''A'' (fl (1 / 10), 1) (fl (1 / 10), 1),
      mk_Room ''B'' (fl (4 / 10), 1) (fl (4 / 10), 1),
      mk_Room ''C'' (fl (1 / 10 ^ 17), 1) (fl (1 / 10 ^ 17), 1)]"

text \<open>The layout of the example scenario.\<close>

definition example_placed :: "Room list" where
  "example_placed =
     [(mk_Room ''MasterBed'' (3.2, 3.6) (4.8, 5.4))
        \<lparr>current_poly := Some (box 0 0 (48 / 7) (240 / 31)),
         center := Some (24 / 7, 120 / 31)\<rparr>,
      (mk_Room ''Kitchen'' (2.4, 2.8) (3.6, 4.2))
        \<lparr>current_poly := Some (box (48 / 7) 0 12 (240 / 31)),
         center := Some (66 / 7, 120 / 31)\<rparr>,
      (mk_Room ''Toilet'' (1.44, 2.0) (2.16, 3.0))
        \<lparr>current_poly := Some (box 0 (240 / 31) (24 / 7) 15),
         center := Some (12 / 7, 705 / 62)\<rparr>,
      (mk_Room ''Living'' (3.6, 4.0) (5.4, 6.0))
        \<lparr>current_poly := Some (box (24 / 7) (240 / 31) 12 15),
         center := Some (54 / 7, 705 / 62)\<rparr>]"

text \<open>
  The wall graph in the words of the properties. \<open>room_edges\<close> are the boundary edges a
  room contributes (none without a polygon), \<open>classification\<close> is the final segment map
  of step 1 as a lookup, \<open>contributes\<close> says that some room has an edge with the given
  canonical segment, and \<open>contributes_exterior\<close> that some room has such an edge which
  passes the plot-boundary test.
\<close>

definition room_edges :: "Room \<Rightarrow> (point \<times> point) list" where
  "room_edges room =
     (case current_poly room of None \<Rightarrow> [] | Some poly \<Rightarrow> edges_of (exterior_coords poly))"

definition classification ::
    "real \<Rightarrow> real \<Rightarrow> Room list \<Rightarrow> segment \<Rightarrow> seg_type option" where
  "classification plot_width plot_height rooms =
     map_of (fst (segment_analysis plot_width plot_height rooms ([], [])))"

definition contributes_exterior :: "real \<Rightarrow> real \<Rightarrow> Room list \<Rightarrow> segment \<Rightarrow> bool" where
  "contributes_exterior plot_width plot_height rooms seg =
     (\<exists>room\<in>set rooms. \<exists>e\<in>set (room_edges room).
        canonical_seg (fst e) (snd e) = seg \<and> is_ext_edge plot_width plot_height (fst e) (snd e))"

definition contributes :: "Room list \<Rightarrow> segment \<Rightarrow> bool" where
  "contributes rooms seg =
     (\<exists>room\<in>set rooms. \<exists>e\<in>set (room_edges room). canonical_seg (fst e) (snd e) = seg)"

text \<open>
  Doors in the words of the properties. A door entity is an entity on one of the two door
  layers; \<open>door_of seg\<close> is the door leaf and swing arc that a successful
  \<^verbatim>\<open>add_door_swing\<close> of width \<open>0.9\<close> adds for the segment. A choice is the door a
  room's loop placed, if any: \<open>chosen_from c item\<close> says that it is one of the segments
  of that entry of \<^verbatim>\<open>room_segments\<close>, and \<open>somes\<close> lists the segments chosen.
\<close>

fun entity_layer :: "entity \<Rightarrow> string" where
  "entity_layer (Line p q l) = l"
| "entity_layer (Hatch l pat sc path) = l"
| "entity_layer (Arc c r a b l lt) = l"
| "entity_layer (Text t h l col p) = l"
| "entity_layer (LinearDim b p q l) = l"
| "entity_layer (Circle c r l) = l"
| "entity_layer (Solid ps l) = l"

definition is_door_entity :: "entity \<Rightarrow> bool" where
  "is_door_entity e = (entity_layer e = ''A-DOOR'' \<or> entity_layer e = ''A-DOOR-SWING'')"

definition door_of :: "segment \<Rightarrow> entity list" where
  "door_of seg =
     (case add_door_swing [] (fst seg) (snd seg) 0.9 of
        Inl e \<Rightarrow> []
      | Inr r \<Rightarrow> if snd r then fst r else [])"

fun somes :: "'a option list \<Rightarrow> 'a list" where
  "somes [] = []"
| "somes (None # cs) = somes cs"
| "somes (Some s # cs) = s # somes cs"

definition chosen_from :: "segment option \<Rightarrow> string \<times> segment list \<Rightarrow> bool" where
  "chosen_from c item = (case c of None \<Rightarrow> True | Some s \<Rightarrow> s \<in> set (snd item))"

text \<open>
  Two rooms side by side on the plot \<open>4 \<times> 3\<close>, as the planner places the requests
  \<^verbatim>\<open>Room("A", (1, 1), (1, 1))\<close> and \<^verbatim>\<open>Room("B", (1, 1), (1, 1))\<close>, and the drawing made of them.
\<close>

definition two_rooms :: "Room list" where
  "two_rooms =
     [(mk_Room ''A'' (1, 1) (1, 1))\<lparr>current_poly := Some (box 0 0 2 3), center := Some (1, 3 / 2)\<rparr>,
      (mk_Room ''B'' (1, 1) (1, 1))\<lparr>current_poly := Some (box 2 0 4 3), center := Some (3, 3 / 2)\<rparr>]"

definition two_rooms_drawing :: "entity list" where
  "two_rooms_drawing =
     [Line (377 / 200, 0) (377 / 200, 3) ''A-WALL'',
      Line (423 / 200, 0) (423 / 200, 3) ''A-WALL'',
      Hatch ''A-WALL-PATT'' ''ANSI31'' (1 / 100)
        [(377 / 200, 0), (377 / 200, 3), (423 / 200, 3), (423 / 200, 0), (377 / 200, 0)],
      Line (0, 3) (2, 3) ''A-WALL'',
      Line (23 / 100, 3) (223 / 100, 3) ''A-WALL'',
      Hatch ''A-WALL-PATT'' ''ANSI31'' (1 / 100)
        [(0, 3), (2, 3), (223 / 100, 3), (23 / 100, 3), (0, 3)],
      Line (0, 0) (0, 3) ''A-WALL'',
      Line (23 / 100, 0) (23 / 100, 3) ''A-WALL'',
      Hatch ''A-WALL-PATT'' ''ANSI31'' (1 / 100)
        [(0, 0), (0, 3), (23 / 100, 3), (23 / 100, 0), (0, 0)],
      Line (0, 0) (2, 0) ''A-WALL'',
      Line (23 / 100, 0) (223 / 100, 0) ''A-WALL'',
      Hatch ''A-WALL-PATT'' ''ANSI31'' (1 / 100)
        [(0, 0), (2, 0), (223 / 100, 0), (23 / 100, 0), (0, 0)],
      Line (4, 0) (4, 3) ''A-WALL'',
      Line (377 / 100, 0) (377 / 100, 3) ''A-WALL'',
      Hatch ''A-WALL-PATT'' ''ANSI31'' (1 / 100)
        [(4, 0), (4, 3), (377 / 100, 3), (377 / 100, 0), (4, 0)],
      Line (2, 3) (4, 3) ''A-WALL'',
      Line (2, 277 / 100) (4, 277 / 100) ''A-WALL'',
      Hatch ''A-WALL-PATT'' ''ANSI31'' (1 / 100)
        [(2, 3), (4, 3), (4, 277 / 100), (2, 277 / 100), (2, 3)],
      Line (2, 0) (4, 0) ''A-WALL'',
      Line (2, 23 / 100) (4, 23 / 100) ''A-WALL'',
      Hatch ''A-WALL-PATT'' ''ANSI31'' (1 / 100)
        [(2, 0), (4, 0), (4, 23 / 100), (2, 23 / 100), (2, 0)],
      Line (2, 21 / 20) (11 / 10, 21 / 20) ''A-DOOR'',
      Arc (2, 21 / 20) (9 / 10) 90 180 ''A-DOOR-SWING'' ''DASHED'',
      Text (Str ''A'') (4 / 25) ''A-ANNO-TEXT'' None (1, 3 / 2),
      LinearDim (1, - (11 / 5)) (0, 0) (2, 0) ''A-ANNO-DIMS'',
      Text (Metres2 2) (2 / 5) ''A-ANNO-DIMS'' (Some 6) (1, - (5 / 2)),
      LinearDim (- (11 / 5), 3 / 2) (0, 0) (0, 3) ''A-ANNO-DIMS'',
      Text (Metres2 3) (2 / 5) ''A-ANNO-DIMS'' (Some 6) (- (5 / 2), 3 / 2),
      Text (Str ''B'') (4 / 25) ''A-ANNO-TEXT'' None (3, 3 / 2),
      LinearDim (3, - (11 / 5)) (2, 0) (4, 0) ''A-ANNO-DIMS'',
      Text (Metres2 2) (2 / 5) ''A-ANNO-DIMS'' (Some 6) (3, - (5 / 2)),
      Circle (6, 2) (3 / 4) ''A-ANNO-NRTH'',
      Text (Str ''N'') (3 / 4) ''A-ANNO-NRTH'' None (6, 29 / 10),
      Solid [(6, 11 / 4), (45 / 8, 13 / 8), (51 / 8, 13 / 8)] ''A-ANNO-NRTH'']"

text \<open>
  \<open>in_band y0 y1 r\<close>: the rectangle of the placed room \<open>r\<close> spans exactly the heights
  from \<open>y0\<close> to \<open>y1\<close>. \<open>has_center r\<close>: a room with a polygon also has a centre.
\<close>

definition in_band :: "real \<Rightarrow> real \<Rightarrow> Room \<Rightarrow> bool" where
  "in_band y0 y1 r =
     (case current_poly r of
        None \<Rightarrow> False
      | Some p \<Rightarrow> (case p of Box a b c d \<Rightarrow> b = y0 \<and> d = y1))"

definition has_center :: "Room \<Rightarrow> bool" where
  "has_center r = (current_poly r = None \<or> center r \<noteq> None)"

section \<open>Segment canonicalization\<close>

lemma round_half_even_of_int: "round_half_even (of_int k) = k"
  by (simp add: round_half_even_def)

lemma round3_idem: "round3 (round3 x) = round3 x"
  by (simp add: round3_def round_half_even_of_int)

lemma sorted_pair_commute: "sorted_pair a b = sorted_pair b a"
  by (auto simp: sorted_pair_def pt_less_def prod_eq_iff)

lemma sorted_pair_idem:
  "sorted_pair (fst (sorted_pair a b)) (snd (sorted_pair a b)) = sorted_pair a b"
  by (auto simp: sorted_pair_def pt_less_def)

lemma canonical_seg_rounded:
  "canonical_seg a b = (p, q) \<Longrightarrow>
     round3 (fst p) = fst p \<and> round3 (snd p) = snd p \<and>
     round3 (fst q) = fst q \<and> round3 (snd q) = snd q"
  by (auto simp: canonical_seg_def sorted_pair_def round3_idem split: if_splits)

text \<open>
  Claim C9. Canonicalization (round each coordinate to three decimals, then sort the two
  endpoints) is idempotent and direction-invariant: canonicalizing the endpoints of a
  canonical segment, in either order, gives that segment back, and the two traversal
  directions of an edge have the same canonical segment.
\<close>

theorem canonical_seg_idempotent_direction_invariant:
  "canonical_seg (fst (canonical_seg p1 p2)) (snd (canonical_seg p1 p2)) = canonical_seg p1 p2
   \<and> canonical_seg (snd (canonical_seg p1 p2)) (fst (canonical_seg p1 p2)) = canonical_seg p1 p2
   \<and> canonical_seg p2 p1 = canonical_seg p1 p2"
proof -
  obtain p q where c: "canonical_seg p1 p2 = (p, q)"
    by (cases "canonical_seg p1 p2")
  from canonical_seg_rounded [OF c]
  have r: "(round3 (fst p), round3 (snd p)) = p" "(round3 (fst q), round3 (snd q)) = q"
    by (simp_all add: prod_eq_iff)
  have "sorted_pair p q = (p, q)"
    using c sorted_pair_idem [of "(round3 (fst p1), round3 (snd p1))"
                                 "(round3 (fst p2), round3 (snd p2))"]
    by (simp add: canonical_seg_def)
  then have 1: "canonical_seg p q = (p, q)" and 2: "canonical_seg q p = (p, q)"
    using r by (simp_all add: canonical_seg_def sorted_pair_commute [of q p])
  have 3: "canonical_seg p2 p1 = canonical_seg p1 p2"
    by (simp add: canonical_seg_def sorted_pair_commute)
  show ?thesis using c 1 2 3 by simp
qed

section \<open>The planner and the constraints argument\<close>

text \<open>
  Claim C10. The layout does not depend on the Vastu-quadrant constraints: for every plot
  size and room list, any two constraint lists give the same result of
  \<^verbatim>\<open>generate_layout\<close> (the same rooms in the same order with the same rectangles and
  centroids, or the same error).
\<close>

theorem generate_layout_ignores_constraints:
  "generate_layout plot_size requirements c1 = generate_layout plot_size requirements c2"
  by (simp add: generate_layout_def)

section \<open>Input validation of the planner\<close>


lemma place_row_fl_id: "place_row_fl (\<lambda>x. x) p_w tw y0 y1 x rs = place_row p_w tw y0 y1 x rs"
  by (induction rs arbitrary: x) (simp_all add: Let_def w_req_fl_def)








lemma place_row_fl_names:
  "place_row_fl rnd p_w tw y0 y1 x rs = Inr ps \<Longrightarrow> map name ps = map name rs"
proof (induction rs arbitrary: x ps)
  case Nil
  then show ?case by simp
next
  case (Cons r rest)
  then show ?case
    by (auto simp: Let_def split: if_splits sum.splits)
qed

lemma place_row_length:
  "place_row p_w tw y0 y1 x rs = Inr ps \<Longrightarrow> length ps = length rs"
proof -
  assume "place_row p_w tw y0 y1 x rs = Inr ps"
  then have "map name ps = map name rs"
    using place_row_fl_names [of "\<lambda>x. x" p_w tw y0 y1 x rs ps]
    by (simp only: place_row_fl_id)
  then show ?thesis by (rule map_eq_imp_length_eq)
qed



lemma is_top_hall: "is_top (mk_Room ''Hall'' a b)"
  by (simp add: is_top_def mk_Room_def lower_def)





section \<open>The example scenario\<close>

lemma is_top_example:
  "is_top (mk_Room ''Living'' a b)" "\<not> is_top (mk_Room ''Kitchen'' a b)"
  "\<not> is_top (mk_Room ''MasterBed'' a b)" "is_top (mk_Room ''Toilet'' a b)"
  by (simp_all add: is_top_def mk_Room_def lower_def)

lemma sort_key_example:
  "sort_key_fn (mk_Room ''Living'' a b) = 1" "sort_key_fn (mk_Room ''Kitchen'' a b) = 1"
  "sort_key_fn (mk_Room ''MasterBed'' a b) = 0" "sort_key_fn (mk_Room ''Toilet'' a b) = 0"
  by (simp_all add: sort_key_fn_def mk_Room_def lower_def)

lemma top_rooms_example:
  "top_rooms_of example_rooms =
     [mk_Room ''Toilet'' (1.44, 2.0) (2.16, 3.0), mk_Room ''Living'' (3.6, 4.0) (5.4, 6.0)]"
  by (simp add: top_rooms_of_def example_rooms_def is_top_example sort_key_example)

lemma bottom_rooms_example:
  "bottom_rooms_of example_rooms =
     [mk_Room ''MasterBed'' (3.2, 3.6) (4.8, 5.4), mk_Room ''Kitchen'' (2.4, 2.8) (3.6, 4.2)]"
  by (simp add: bottom_rooms_of_def example_rooms_def is_top_example sort_key_example)

lemma h_bottom_example: "h_bottom_of 15 example_rooms = 240 / 31"
  by (simp add: h_bottom_of_def h_top_of_def top_rooms_example bottom_rooms_example
        avg_d_def mk_Room_def)

lemma example_layout:
  "generate_layout (12, 15) example_rooms cs =
     Inr [(mk_Room ''MasterBed'' (3.2, 3.6) (4.8, 5.4))
            \<lparr>current_poly := Some (Box 0 0 (48 / 7) (240 / 31)),
             center := Some (24 / 7, 120 / 31)\<rparr>,
          (mk_Room ''Kitchen'' (2.4, 2.8) (3.6, 4.2))
            \<lparr>current_poly := Some (Box (48 / 7) 0 12 (240 / 31)),
             center := Some (66 / 7, 120 / 31)\<rparr>,
          (mk_Room ''Toilet'' (1.44, 2.0) (2.16, 3.0))
            \<lparr>current_poly := Some (Box 0 (240 / 31) (24 / 7) 15),
             center := Some (12 / 7, 705 / 62)\<rparr>,
          (mk_Room ''Living'' (3.6, 4.0) (5.4, 6.0))
            \<lparr>current_poly := Some (Box (24 / 7) (240 / 31) 12 15),
             center := Some (54 / 7, 705 / 62)\<rparr>]"
  by (simp add: generate_layout_def top_rooms_example bottom_rooms_example h_bottom_example
        total_w_def Let_def mk_Room_def)

text \<open>
  Claim C6, as stated, fails: on the example the south row (the rooms whose rectangle
  starts at \<open>y = 0\<close>) is MasterBed, Kitchen and the row above it is Toilet, Living, so
  Toilet is not in the south row and does not share an edge with MasterBed.
\<close>

theorem example_scenario_rows_counterexample:
  "(case generate_layout (12, 15) example_rooms [] of
      Inl e \<Rightarrow> None
    | Inr placed \<Rightarrow> Some (row_at 0 placed, row_at (240 / 31) placed)) =
   Some ([''MasterBed'', ''Kitchen''], [''Toilet'', ''Living''])"
  by (simp add: example_layout row_at_def) (simp add: mk_Room_def)

text \<open>
  Claim C6, amended. For the plot \<open>12 \<times> 15\<close> and the rooms Living, Kitchen, MasterBed,
  Toilet the planner places MasterBed and Kitchen, in this order, in the south row
  (\<open>y\<close> from \<open>0\<close> to \<open>240/31\<close>) and Toilet and Living in the north row (\<open>y\<close> from
  \<open>240/31\<close> to \<open>15\<close>): the two heights sum to \<open>15\<close>, each row runs from \<open>x = 0\<close> to
  \<open>x = 12\<close>, MasterBed's right edge is Kitchen's left edge (\<open>48/7\<close>) and Toilet's
  right edge is Living's left edge (\<open>24/7\<close>).
\<close>

theorem example_scenario_layout:
  "generate_layout (12, 15) example_rooms constraints =
     Inr [(mk_Room ''MasterBed'' (3.2, 3.6) (4.8, 5.4))
            \<lparr>current_poly := Some (box 0 0 (48 / 7) (240 / 31)),
             center := Some (24 / 7, 120 / 31)\<rparr>,
          (mk_Room ''Kitchen'' (2.4, 2.8) (3.6, 4.2))
            \<lparr>current_poly := Some (box (48 / 7) 0 12 (240 / 31)),
             center := Some (66 / 7, 120 / 31)\<rparr>,
          (mk_Room ''Toilet'' (1.44, 2.0) (2.16, 3.0))
            \<lparr>current_poly := Some (box 0 (240 / 31) (24 / 7) 15),
             center := Some (12 / 7, 705 / 62)\<rparr>,
          (mk_Room ''Living'' (3.6, 4.0) (5.4, 6.0))
            \<lparr>current_poly := Some (box (24 / 7) (240 / 31) 12 15),
             center := Some (54 / 7, 705 / 62)\<rparr>]"
  by (simp add: example_layout)

section \<open>The door threshold\<close>

lemma sqrt_121_100: "sqrt (121 / 100) = 11 / 10"
  by (rule real_sqrt_unique) (simp_all add: power2_eq_square)

lemma atan2_axes: "degrees (atan2 0 1) = 0" "degrees (atan2 1 0) = 90"
  by (simp_all add: degrees_def atan2_def)

lemma dist_pt_seg_length: "dist_pt p q = seg_length p q"
  by (simp add: dist_pt_def seg_length_def power2_commute)

text \<open>
  Claim C7, as stated, fails at the boundary: a segment of length exactly \<open>1.1\<close> is not
  longer than \<open>0.9 + 0.2\<close>, and the call places a door on it and returns \<^verbatim>\<open>True\<close>.
\<close>

theorem door_on_boundary_length_counterexample:
  "seg_length (0, 0) (11 / 10, 0) = 11 / 10 \<and>
   add_door_swing [] (0, 0) (11 / 10, 0) 0.9 =
     Inr ([Line (1 / 10, 0) (1 / 10, 9 / 10) ''A-DOOR'',
           Arc (1 / 10, 0) (9 / 10) 0 90 ''A-DOOR-SWING'' ''DASHED''], True)"
  by (simp add: seg_length_def add_door_swing_def power2_eq_square sqrt_121_100 atan2_axes
        Let_def)

text \<open>
  Claim C7, amended. A door is placed on a segment exactly when its Euclidean length is
  at least \<open>doorWidth + margin = 0.9 + 0.2\<close>: for a segment shorter than \<open>1.1\<close> the
  call adds nothing to the drawing and returns \<^verbatim>\<open>False\<close>, and the room's loop goes on
  with the remaining segments; for a segment of length \<open>1.1\<close> or more it adds the door
  leaf and the swing arc and returns \<^verbatim>\<open>True\<close>. The segments of a room are tried longest
  first: the sorted list is a rearrangement of the room's segments in non-increasing
  length.
\<close>

theorem door_threshold:
  "(seg_length p1 p2 < 11 / 10 \<longrightarrow> add_door_swing msp p1 p2 0.9 = Inr (msp, False))
   \<and> (11 / 10 \<le> seg_length p1 p2 \<longrightarrow>
        (\<exists>p_start leaf_end a b.
           add_door_swing msp p1 p2 0.9 =
             Inr (msp @ [Line p_start leaf_end ''A-DOOR'',
                         Arc p_start 0.9 a b ''A-DOOR-SWING'' ''DASHED''], True)))
   \<and> (seg_length (fst seg) (snd seg) < 11 / 10 \<and> map_of drawn seg = Some t \<longrightarrow>
        try_segments msp drawn placed (seg # segs) = try_segments msp drawn placed segs)
   \<and> sorted (map (\<lambda>s. - seg_length (fst s) (snd s)) (sort_longest_first segs))
   \<and> mset (sort_longest_first segs) = mset segs"
proof (intro conjI impI)
  show a: "add_door_swing msp p1 p2 0.9 = Inr (msp, False)"
    if "seg_length p1 p2 < 11 / 10" for msp p1 p2
    using that by (simp add: add_door_swing_def seg_length_def Let_def)
  show "\<exists>p_start leaf_end a b.
           add_door_swing msp p1 p2 0.9 =
             Inr (msp @ [Line p_start leaf_end ''A-DOOR'',
                         Arc p_start 0.9 a b ''A-DOOR-SWING'' ''DASHED''], True)"
    if "11 / 10 \<le> seg_length p1 p2"
    using that by (auto simp: add_door_swing_def seg_length_def Let_def)
  show "try_segments msp drawn placed (seg # segs) = try_segments msp drawn placed segs"
    if "seg_length (fst seg) (snd seg) < 11 / 10 \<and> map_of drawn seg = Some t"
    using that a [of "fst seg" "snd seg" msp] by simp
  show "sorted (map (\<lambda>s. - seg_length (fst s) (snd s)) (sort_longest_first segs))"
    by (simp add: sort_longest_first_def dist_pt_seg_length)
  show "mset (sort_longest_first segs) = mset segs"
    by (simp add: sort_longest_first_def)
qed

theorem door_threshold_witness:
  "seg_length (0, 0) (1, 0) < 11 / 10
   \<and> add_door_swing [] (0, 0) (1, 0) 0.9 = Inr ([], False)
   \<and> 11 / 10 \<le> seg_length (0, 0) (2, 0)
   \<and> (\<exists>p_start leaf_end a b.
         add_door_swing [] (0, 0) (2, 0) 0.9 =
           Inr ([Line p_start leaf_end ''A-DOOR'',
                 Arc p_start 0.9 a b ''A-DOOR-SWING'' ''DASHED''], True))
   \<and> try_segments [] [(((0, 0), (1, 0)), Interior)] {} [((0, 0), (1, 0))] = Inr ([], {})"
proof -
  have 1: "seg_length (0, 0) (1, 0) < 11 / 10" and 2: "11 / 10 \<le> seg_length (0, 0) (2, 0)"
    by (simp_all add: seg_length_def)
  have 3: "seg_length (fst ((0, 0), (1, 0))) (snd ((0, 0), (1, 0))) < 11 / 10
           \<and> map_of [(((0, 0), (1, 0)), Interior)] ((0, 0), (1, 0)) = Some Interior"
    using 1 by simp
  from door_threshold [where ?p1.0 = "(0, 0)" and ?p2.0 = "(1, 0)" and msp = "[]"
                          and seg = "((0, 0), (1, 0))"
                          and drawn = "[(((0, 0), (1, 0)), Interior)]" and t = Interior
                          and placed = "{}" and segs = "[]"]
  have a: "add_door_swing [] (0, 0) (1, 0) 0.9 = Inr ([], False)"
    and b: "try_segments [] [(((0, 0), (1, 0)), Interior)] {} [((0, 0), (1, 0))]
              = try_segments [] [(((0, 0), (1, 0)), Interior)] {} []"
    using 1 3 by blast+
  from door_threshold [where ?p1.0 = "(0, 0)" and ?p2.0 = "(2, 0)" and msp = "[]"] 2
  have c: "\<exists>p_start leaf_end a b.
         add_door_swing [] (0, 0) (2, 0) 0.9 =
           Inr ([] @ [Line p_start leaf_end ''A-DOOR'',
                 Arc p_start 0.9 a b ''A-DOOR-SWING'' ''DASHED''], True)"
    by blast
  show ?thesis using 1 2 a b c by simp
qed

section \<open>Exterior walls\<close>

lemma round3_example: "round3 0 = 0" "round3 12 = 12" "round3 15 = 15"
  by (simp_all add: round3_def round_half_even_def)

lemma canonical_seg_full_plot:
  "canonical_seg (12, 0) (12, 15) = ((12, 0), (12, 15))"
  "canonical_seg (12, 15) (0, 15) = ((0, 15), (12, 15))"
  "canonical_seg (0, 15) (0, 0) = ((0, 0), (0, 15))"
  "canonical_seg (0, 0) (12, 0) = ((0, 0), (12, 0))"
  by (simp_all add: canonical_seg_def round3_example sorted_pair_def pt_less_def)

lemma segment_analysis_full_plot:
  "fst (segment_analysis 12 15 [full_plot_room] ([], [])) =
     [(((12, 0), (12, 15)), Exterior), (((0, 15), (12, 15)), Exterior),
      (((0, 0), (0, 15)), Exterior), (((0, 0), (12, 0)), Exterior)]"
  by (simp add: full_plot_room_def edges_of_def record_segment_def canonical_seg_full_plot
        is_ext_edge_def Let_def)

lemma sqrt_225_144: "sqrt 225 = 15" "sqrt 144 = 12"
  by (rule real_sqrt_unique; simp add: power2_eq_square)+

lemma generate_layout_hall:
  "generate_layout (12, 15) [mk_Room ''Hall'' (3, 3) (5, 5)] [] = Inr [full_plot_room]"
  by (simp add: generate_layout_def top_rooms_of_def bottom_rooms_of_def is_top_hall
        h_bottom_of_def h_top_of_def avg_d_def total_w_def Let_def full_plot_room_def)
     (simp add: mk_Room_def)

text \<open>
  Claim C5 on the code. For one room that fills the plot \<open>12 \<times> 15\<close> all four segments
  are exterior. The east and west walls are offset inward (\<open>x = 11.77\<close>, \<open>x = 0.23\<close>).
  The north segment \<open>(0, 15)-(12, 15)\<close> and the south segment \<open>(0, 0)-(12, 0)\<close> start at
  \<open>x = 0\<close>, so the first test of the direction chain takes them for the west edge: their
  inner lines are the outer lines shifted by \<open>+0.23\<close> along \<open>x\<close>, they stay on the
  boundary line and end at \<open>x = 12.23\<close>, outside the plot.
\<close>

theorem exterior_walls_full_plot_room:
  "draw_walls 12 15 [] (fst (segment_analysis 12 15 [full_plot_room] ([], []))) =
     [Line (12, 0) (12, 15) ''A-WALL'', Line (11.77, 0) (11.77, 15) ''A-WALL'',
      Hatch ''A-WALL-PATT'' ''ANSI31'' 0.01
        [(12, 0), (12, 15), (11.77, 15), (11.77, 0), (12, 0)],
      Line (0, 15) (12, 15) ''A-WALL'', Line (0.23, 15) (12.23, 15) ''A-WALL'',
      Hatch ''A-WALL-PATT'' ''ANSI31'' 0.01
        [(0, 15), (12, 15), (12.23, 15), (0.23, 15), (0, 15)],
      Line (0, 0) (0, 15) ''A-WALL'', Line (0.23, 0) (0.23, 15) ''A-WALL'',
      Hatch ''A-WALL-PATT'' ''ANSI31'' 0.01
        [(0, 0), (0, 15), (0.23, 15), (0.23, 0), (0, 0)],
      Line (0, 0) (12, 0) ''A-WALL'', Line (0.23, 0) (12.23, 0) ''A-WALL'',
      Hatch ''A-WALL-PATT'' ''ANSI31'' 0.01
        [(0, 0), (12, 0), (12.23, 0), (0.23, 0), (0, 0)]]"
  unfolding segment_analysis_full_plot
  by (simp add: draw_walls_def draw_segment_def offset_dir_of_def draw_wall_with_hatch_def
        WALL_THICKNESS_def sqrt_225_144 Let_def)

section \<open>Full coverage of the plot\<close>


















section \<open>Unfolding the row loop\<close>

lemma place_row_Cons:
  "tw \<noteq> 0 \<Longrightarrow>
   place_row p_w tw y0 y1 x (r # rest) =
     (case place_row p_w tw y0 y1 (end_x_of p_w tw x r rest) rest of
        Inl e \<Rightarrow> Inl e
      | Inr placed \<Rightarrow>
          Inr (r\<lparr>current_poly := Some (Box x y0 (end_x_of p_w tw x r rest) y1),
                 center := Some (centroid (Box x y0 (end_x_of p_w tw x r rest) y1))\<rparr> # placed))"
  by (simp only: place_row.simps Let_def end_x_of_def box.simps if_False)

section \<open>Rounding and the last-room snap\<close>

text \<open>
  How \<open>fl\<close> is computed: when \<open>\<bar>x\<bar> * 2 ^ k\<close> lies between \<open>2 ^ 52\<close> and \<open>2 ^ 53\<close>,
  the spacing of the doubles around \<open>x\<close> is \<open>1 / 2 ^ k\<close>.
\<close>

lemma fl_eval:
  assumes "2 ^ 52 \<le> \<bar>x\<bar> * 2 ^ k" "\<bar>x\<bar> * 2 ^ k < 2 ^ 53"
  shows "fl x = of_int (round_half_even (x * 2 ^ k)) / 2 ^ k"
proof -
  have x0: "x \<noteq> 0" using assms(1) by auto
  then have ax: "0 < \<bar>x\<bar>" by simp
  have "log 2 (\<bar>x\<bar> * 2 ^ k) = log 2 \<bar>x\<bar> + real k"
    using ax by (simp add: log_mult log_nat_power)
  moreover have "52 \<le> log 2 (\<bar>x\<bar> * 2 ^ k)"
    using assms(1) ax by (subst le_log_iff) (auto simp: powr_realpow)
  moreover have "log 2 (\<bar>x\<bar> * 2 ^ k) < 53"
    using assms(2) ax by (subst log_less_iff) (auto simp: powr_realpow)
  ultimately have "52 - real k \<le> log 2 \<bar>x\<bar>" "log 2 \<bar>x\<bar> < 53 - real k" by linarith+
  then have e: "\<lfloor>log 2 \<bar>x\<bar>\<rfloor> = 52 - int k"
    by (intro floor_unique) auto
  have u: "(2::real) powr (- real k) = 1 / 2 ^ k"
    by (simp add: powr_minus powr_realpow divide_simps)
  show ?thesis using x0 by (simp add: fl_def e u Let_def)
qed

lemma fl_0: "fl 0 = 0"
  by (simp add: fl_def)

text \<open>The roundings that occur when the planner runs on the three requests.\<close>

lemma fl_value_1: "fl (1 / 10) = 3602879701896397 / 36028797018963968"
  using fl_eval [of "1 / 10" 56] by (simp add: round_half_even_def)

lemma fl_value_2: "fl (2 / 5) = 3602879701896397 / 9007199254740992"
  using fl_eval [of "2 / 5" 54] by (simp add: round_half_even_def)

lemma fl_value_3: "fl (1 / 100000000000000000) = 6490371073168535 / 649037107316853453566312041152512"
  using fl_eval [of "1 / 100000000000000000" 109] by (simp add: round_half_even_def)

lemma fl_value_4: "fl (3602879701896397 / 18014398509481984) = 3602879701896397 / 18014398509481984"
  using fl_eval [of "3602879701896397 / 18014398509481984" 55] by (simp add: round_half_even_def)

lemma fl_value_5: "fl (3602879701896397 / 36028797018963968) = 3602879701896397 / 36028797018963968"
  using fl_eval [of "3602879701896397 / 36028797018963968" 56] by (simp add: round_half_even_def)

lemma fl_value_6: "fl (3602879701896397 / 4503599627370496) = 3602879701896397 / 4503599627370496"
  using fl_eval [of "3602879701896397 / 4503599627370496" 53] by (simp add: round_half_even_def)

lemma fl_value_7: "fl (3602879701896397 / 9007199254740992) = 3602879701896397 / 9007199254740992"
  using fl_eval [of "3602879701896397 / 9007199254740992" 54] by (simp add: round_half_even_def)

lemma fl_value_8: "fl (6490371073168535 / 324518553658426726783156020576256) = 6490371073168535 / 324518553658426726783156020576256"
  using fl_eval [of "6490371073168535 / 324518553658426726783156020576256" 108] by (simp add: round_half_even_def)

lemma fl_value_9: "fl (6490371073168535 / 649037107316853453566312041152512) = 6490371073168535 / 649037107316853453566312041152512"
  using fl_eval [of "6490371073168535 / 649037107316853453566312041152512" 109] by (simp add: round_half_even_def)

lemma fl_value_10: "fl (2) = 2"
  using fl_eval [of "2" 51] by (simp add: round_half_even_def)

lemma fl_value_11: "fl (1) = 1"
  using fl_eval [of "1" 52] by (simp add: round_half_even_def)

lemma fl_value_12: "fl (3) = 3"
  using fl_eval [of "3" 51] by (simp add: round_half_even_def)

lemma fl_value_13: "fl (15) = 15"
  using fl_eval [of "15" 49] by (simp add: round_half_even_def)

lemma fl_value_14: "fl (18014398509481985 / 36028797018963968) = 1 / 2"
  using fl_eval [of "18014398509481985 / 36028797018963968" 53] by (simp add: round_half_even_def)

lemma fl_value_15: "fl (324518553658426733273527093744791 / 649037107316853453566312041152512) = 1 / 2"
  using fl_eval [of "324518553658426733273527093744791 / 649037107316853453566312041152512" 53] by (simp add: round_half_even_def)

lemma fl_value_16: "fl (10808639105689191 / 4503599627370496) = 1351079888211149 / 562949953421312"
  using fl_eval [of "10808639105689191 / 4503599627370496" 51] by (simp add: round_half_even_def)

lemma fl_value_17: "fl (1351079888211149 / 562949953421312) = 1351079888211149 / 562949953421312"
  using fl_eval [of "1351079888211149 / 562949953421312" 51] by (simp add: round_half_even_def)

lemma fl_value_18: "fl (10808639105689191 / 1125899906842624) = 1351079888211149 / 140737488355328"
  using fl_eval [of "10808639105689191 / 1125899906842624" 49] by (simp add: round_half_even_def)

lemma fl_value_19: "fl (6755399441055745 / 562949953421312) = 6755399441055745 / 562949953421312"
  using fl_eval [of "6755399441055745 / 562949953421312" 49] by (simp add: round_half_even_def)

lemma fl_value_20: "fl (19471113219505605 / 81129638414606681695789005144064) = 4867778304876401 / 20282409603651670423947251286016"
  using fl_eval [of "19471113219505605 / 81129638414606681695789005144064" 104] by (simp add: round_half_even_def)

lemma fl_value_21: "fl (243388915243820085983942339272561 / 20282409603651670423947251286016) = 6755399441055745 / 562949953421312"
  using fl_eval [of "243388915243820085983942339272561 / 20282409603651670423947251286016" 49] by (simp add: round_half_even_def)

lemmas fl_values = fl_value_1 fl_value_2 fl_value_3 fl_value_4 fl_value_5 fl_value_6 fl_value_7 fl_value_8 fl_value_9 fl_value_10 fl_value_11 fl_value_12 fl_value_13 fl_value_14 fl_value_15 fl_value_16 fl_value_17 fl_value_18 fl_value_19 fl_value_20 fl_value_21

lemma rows_abc:
  "\<not> is_top (mk_Room ''A'' a b)" "\<not> is_top (mk_Room ''B'' a b)"
  "\<not> is_top (mk_Room ''C'' a b)"
  "sort_key_fn (mk_Room ''A'' a b) = 2" "sort_key_fn (mk_Room ''B'' a b) = 2"
  "sort_key_fn (mk_Room ''C'' a b) = 2"
  by (simp_all add: is_top_def sort_key_fn_def mk_Room_def lower_def)

lemma overshoot_rows:
  "top_rooms_of overshoot_rooms = []" "bottom_rooms_of overshoot_rooms = overshoot_rooms"
  by (simp_all add: top_rooms_of_def bottom_rooms_of_def overshoot_rooms_def rows_abc)

lemma overshoot_h_bottom: "h_bottom_fl fl 15 overshoot_rooms = 15"
  unfolding h_bottom_fl_def h_top_fl_def overshoot_rows avg_d_fl_def
  by (simp add: overshoot_rooms_def mk_Room_def d_req_fl_def sum_fl_def fl_values fl_0 Let_def)

lemma overshoot_total_w: "total_w_fl fl overshoot_rooms = 1 / 2"
  unfolding total_w_fl_def
  by (simp add: overshoot_rooms_def mk_Room_def w_req_fl_def sum_fl_def fl_values fl_0)

text \<open>
  Claim C8 on the code. On the plot \<open>12 \<times> 15\<close> the three requests of widths \<open>0.1\<close>,
  \<open>0.4\<close> and \<open>1e-17\<close> form one row with total width \<open>0.5\<close>. In double precision the
  two proportional widths round up to \<open>2.4000000000000004\<close> and \<open>9.600000000000001\<close>,
  and the running offset after the second room is \<open>12 + 1 / 2 ^ 49 = 12.000000000000002\<close>.
  The snap assigns \<open>end_x = 12\<close> to the last room without looking at the offset, so its
  rectangle is \<^verbatim>\<open>box(12.000000000000002, 0, 12, 15)\<close>: it lies right of the plot, its
  right edge is \<open>12.000000000000002\<close> and not the plot width, and it overlaps the
  second room.
\<close>

theorem last_room_overshoot:
  "map_sum id (map current_poly) (generate_layout_fl fl (12, 15) overshoot_rooms []) =
     Inr [Some (box 0 0 (1351079888211149 / 562949953421312) 15),
          Some (box (1351079888211149 / 562949953421312) 0
                  (6755399441055745 / 562949953421312) 15),
          Some (box (6755399441055745 / 562949953421312) 0 12 15)]
   \<and> (12::real) < 6755399441055745 / 562949953421312
   \<and> bounds (box (6755399441055745 / 562949953421312) 0 12 15) =
       (12, 0, 6755399441055745 / 562949953421312, 15)"
  unfolding generate_layout_fl_def overshoot_rows
  apply (simp add: overshoot_h_bottom overshoot_total_w Let_def)
  apply (simp add: overshoot_rooms_def mk_Room_def w_req_fl_def fl_values fl_0 Let_def)
  done

section \<open>Exterior classification\<close>

lemma map_of_record_segment:
  "map_of (record_segment pw ph drawn e) seg =
     (if canonical_seg (fst e) (snd e) = seg then
        (if is_ext_edge pw ph (fst e) (snd e) then Some Exterior
         else (case map_of drawn seg of None \<Rightarrow> Some Interior | Some t \<Rightarrow> Some t))
      else map_of drawn seg)"
  by (auto simp: record_segment_def Let_def update_conv' split: option.splits)

lemma map_of_foldl_record:
  "map_of (foldl (record_segment pw ph) drawn es) seg =
     (if \<exists>e\<in>set es. canonical_seg (fst e) (snd e) = seg \<and> is_ext_edge pw ph (fst e) (snd e)
      then Some Exterior
      else if \<exists>e\<in>set es. canonical_seg (fst e) (snd e) = seg
      then (case map_of drawn seg of None \<Rightarrow> Some Interior | Some t \<Rightarrow> Some t)
      else map_of drawn seg)"
proof (induction es arbitrary: drawn)
  case Nil
  then show ?case by simp
next
  case (Cons e es)
  show ?case
    unfolding foldl_Cons Cons.IH map_of_record_segment
    by (auto split: option.splits)
qed

lemma segment_analysis_drawn:
  "fst (segment_analysis pw ph rooms (drawn, rsegs)) =
     foldl (record_segment pw ph) drawn (concat (map room_edges rooms))"
  by (induction rooms arbitrary: drawn rsegs)
     (auto simp: room_edges_def Let_def split: option.splits)

lemma classification_eq:
  "classification pw ph rooms seg =
     (if contributes_exterior pw ph rooms seg then Some Exterior
      else if contributes rooms seg then Some Interior else None)"
  unfolding classification_def segment_analysis_drawn map_of_foldl_record
  by (auto simp: contributes_exterior_def contributes_def)

lemma sticky_step:
  "map_of drawn seg = Some Exterior \<Longrightarrow> map_of (record_segment pw ph drawn e) seg = Some Exterior"
  by (simp add: map_of_record_segment)

lemma sticky_analysis:
  "map_of drawn seg = Some Exterior \<Longrightarrow>
   map_of (fst (segment_analysis pw ph rooms (drawn, rsegs))) seg = Some Exterior"
  unfolding segment_analysis_drawn map_of_foldl_record by simp

text \<open>
  Claim C4. Exterior classification is sticky and order-independent. The final
  classification of a canonical segment is exterior exactly when some contributing room
  has an edge with this canonical segment that lies on the plot boundary (the boundary
  test of step 1, with its tolerance of \<open>0.01\<close>). A segment recorded as exterior stays
  exterior under every further edge and through the rest of the analysis. And the final
  classification of every segment is the same for every permutation of the rooms.
\<close>

theorem exterior_sticky_order_independent:
  "(classification pw ph rooms seg = Some Exterior \<longleftrightarrow> contributes_exterior pw ph rooms seg)
   \<and> (map_of drawn seg = Some Exterior \<longrightarrow>
        map_of (record_segment pw ph drawn e) seg = Some Exterior
        \<and> map_of (fst (segment_analysis pw ph rooms (drawn, rsegs))) seg = Some Exterior)
   \<and> (mset rooms' = mset rooms \<longrightarrow> classification pw ph rooms' = classification pw ph rooms)"
proof (intro conjI impI)
  show "classification pw ph rooms seg = Some Exterior \<longleftrightarrow> contributes_exterior pw ph rooms seg"
    by (simp add: classification_eq)
  show "map_of (record_segment pw ph drawn e) seg = Some Exterior" if "map_of drawn seg = Some Exterior"
    using that by (rule sticky_step)
  show "map_of (fst (segment_analysis pw ph rooms (drawn, rsegs))) seg = Some Exterior"
    if "map_of drawn seg = Some Exterior"
    using that by (rule sticky_analysis)
  show "classification pw ph rooms' = classification pw ph rooms" if "mset rooms' = mset rooms"
  proof
    fix s
    have "set rooms' = set rooms" using that by (rule mset_eq_setD)
    then show "classification pw ph rooms' s = classification pw ph rooms s"
      by (simp add: classification_eq contributes_exterior_def contributes_def)
  qed
qed


theorem exterior_sticky_order_independent_witness:
  "contributes_exterior 12 15 [full_plot_room] ((0, 0), (12, 0))
   \<and> classification 12 15 [full_plot_room] ((0, 0), (12, 0)) = Some Exterior
   \<and> map_of [(((0.01, 5), (0.01, 6)), Exterior)] ((0.01, 5), (0.01, 6)) = Some Exterior
   \<and> \<not> is_ext_edge 12 15 (0.0104, 5) (0.0104, 6)
   \<and> canonical_seg (0.0104, 5) (0.0104, 6) = ((0.01, 5), (0.01, 6))
   \<and> map_of (record_segment 12 15 [(((0.01, 5), (0.01, 6)), Exterior)]
               ((0.0104, 5), (0.0104, 6))) ((0.01, 5), (0.01, 6)) = Some Exterior
   \<and> mset (rev example_placed) = mset example_placed
   \<and> classification 12 15 (rev example_placed) = classification 12 15 example_placed"
proof -
  have c: "contributes_exterior 12 15 [full_plot_room] ((0, 0), (12, 0))"
    by (simp add: contributes_exterior_def room_edges_def full_plot_room_def edges_of_def
          canonical_seg_full_plot is_ext_edge_def)
  have d: "map_of [(((0.01, 5), (0.01, 6)), Exterior)] ((0.01, 5), (0.01, 6)) = Some Exterior"
    by simp
  have n: "\<not> is_ext_edge 12 15 (0.0104, 5) (0.0104, 6)"
    by (simp add: is_ext_edge_def)
  have k: "canonical_seg (0.0104, 5) (0.0104, 6) = ((0.01, 5), (0.01, 6))"
    by (simp add: canonical_seg_def round3_def round_half_even_def sorted_pair_def pt_less_def)
  have m: "mset (rev example_placed) = mset example_placed" by simp
  from exterior_sticky_order_independent
         [where pw = 12 and ph = 15 and rooms = "[full_plot_room]" and seg = "((0, 0), (12, 0))"] c
  have 1: "classification 12 15 [full_plot_room] ((0, 0), (12, 0)) = Some Exterior" by blast
  from exterior_sticky_order_independent
         [where pw = 12 and ph = 15 and rooms = example_placed and rooms' = "rev example_placed"
            and drawn = "[(((0.01, 5), (0.01, 6)), Exterior)]" and seg = "((0.01, 5), (0.01, 6))"
            and e = "((0.0104, 5), (0.0104, 6))"] d m
  have 2: "map_of (record_segment 12 15 [(((0.01, 5), (0.01, 6)), Exterior)]
               ((0.0104, 5), (0.0104, 6))) ((0.01, 5), (0.01, 6)) = Some Exterior"
    and 3: "classification 12 15 (rev example_placed) = classification 12 15 example_placed"
    by blast+
  show ?thesis using c 1 d n k 2 3 m by blast
qed

section \<open>Doors\<close>

lemma chosen_from_simps:
  "chosen_from None item" "chosen_from (Some s) item \<longleftrightarrow> s \<in> set (snd item)"
  by (simp_all add: chosen_from_def)

lemma add_door_swing_cases:
  "add_door_swing msp p1 p2 0.9 = Inr (msp, False) \<and> seg_length p1 p2 < 11 / 10
   \<or> add_door_swing msp p1 p2 0.9 = Inr (msp @ door_of (p1, p2), True)
       \<and> length (door_of (p1, p2)) = 2 \<and> filter is_door_entity (door_of (p1, p2)) = door_of (p1, p2)"
  by (auto simp: add_door_swing_def door_of_def seg_length_def Let_def is_door_entity_def)

lemma try_segments_result:
  "try_segments msp drawn placed segs = Inr (msp', placed') \<Longrightarrow>
     (msp' = msp \<and> placed' = placed)
     \<or> (\<exists>s\<in>set segs. s \<notin> placed \<and> map_of drawn s = Some Interior
           \<and> msp' = msp @ door_of s \<and> placed' = insert s placed
           \<and> length (door_of s) = 2 \<and> filter is_door_entity (door_of s) = door_of s)"
proof (induction segs)
  case Nil
  then show ?case by simp
next
  case (Cons seg segs)
  from Cons.prems obtain t where t: "map_of drawn seg = Some t"
    by (auto split: option.splits)
  show ?case
  proof (cases "t = Interior \<and> seg \<notin> placed")
    case False
    then have "try_segments msp drawn placed segs = Inr (msp', placed')"
      using Cons.prems t by auto
    from Cons.IH [OF this] show ?thesis by auto
  next
    case True
    from add_door_swing_cases [of msp "fst seg" "snd seg"] show ?thesis
    proof
      assume a: "add_door_swing msp (fst seg) (snd seg) 0.9 = Inr (msp, False) \<and> seg_length (fst seg) (snd seg) < 11 / 10"
      then have "try_segments msp drawn placed segs = Inr (msp', placed')"
        using Cons.prems t True by simp
      from Cons.IH [OF this] show ?thesis by auto
    next
      assume a: "add_door_swing msp (fst seg) (snd seg) 0.9 = Inr (msp @ door_of (fst seg, snd seg), True)
        \<and> length (door_of (fst seg, snd seg)) = 2
        \<and> filter is_door_entity (door_of (fst seg, snd seg)) = door_of (fst seg, snd seg)"
      then have "msp' = msp @ door_of seg \<and> placed' = insert seg placed"
        using Cons.prems t True by simp
      then show ?thesis using a t True by simp
    qed
  qed
qed

lemma set_sort_longest_first: "set (sort_longest_first segs) = set segs"
  by (simp add: sort_longest_first_def)

lemma place_doors_result:
  "place_doors msp drawn placed items = Inr (msp', placed') \<Longrightarrow>
     \<exists>choice. list_all2 chosen_from choice items
       \<and> msp' = msp @ concat (map door_of (somes choice))
       \<and> placed' = placed \<union> set (somes choice)
       \<and> distinct (somes choice) \<and> set (somes choice) \<inter> placed = {}
       \<and> (\<forall>s\<in>set (somes choice). map_of drawn s = Some Interior \<and> length (door_of s) = 2
              \<and> filter is_door_entity (door_of s) = door_of s)"
proof (induction items arbitrary: msp placed)
  case Nil
  then show ?case by simp
next
  case (Cons item items)
  from Cons.prems obtain m1 pl1 where
    r: "try_segments msp drawn placed (sort_longest_first (snd item)) = Inr (m1, pl1)" and
    rest: "place_doors m1 drawn pl1 items = Inr (msp', placed')"
    by (auto split: sum.splits)
  from Cons.IH [OF rest] obtain choice where ch:
    "list_all2 chosen_from choice items" "msp' = m1 @ concat (map door_of (somes choice))"
    "placed' = pl1 \<union> set (somes choice)" "distinct (somes choice)" "set (somes choice) \<inter> pl1 = {}"
    "\<forall>s\<in>set (somes choice). map_of drawn s = Some Interior \<and> length (door_of s) = 2
              \<and> filter is_door_entity (door_of s) = door_of s"
    by blast
  from try_segments_result [OF r] show ?case
  proof
    assume "m1 = msp \<and> pl1 = placed"
    then show ?thesis using ch
      by (intro exI [of _ "None # choice"]) (simp add: chosen_from_simps)
  next
    assume "\<exists>s\<in>set (sort_longest_first (snd item)). s \<notin> placed \<and> map_of drawn s = Some Interior
           \<and> m1 = msp @ door_of s \<and> pl1 = insert s placed
           \<and> length (door_of s) = 2 \<and> filter is_door_entity (door_of s) = door_of s"
    then obtain s where s: "s \<in> set (snd item)" "s \<notin> placed" "map_of drawn s = Some Interior"
      "m1 = msp @ door_of s" "pl1 = insert s placed" "length (door_of s) = 2"
      "filter is_door_entity (door_of s) = door_of s"
      by (auto simp: set_sort_longest_first)
    show ?thesis using ch s
      by (intro exI [of _ "Some s # choice"]) (auto simp: chosen_from_simps)
  qed
qed

lemma draw_wall_no_door:
  "filter is_door_entity (draw_wall_with_hatch msp p1 p2 th od) = filter is_door_entity msp"
  by (auto simp: draw_wall_with_hatch_def Let_def is_door_entity_def split: option.splits prod.splits)

lemma draw_walls_no_door:
  "filter is_door_entity (draw_walls pw ph msp drawn) = filter is_door_entity msp"
  unfolding draw_walls_def
  by (induction drawn arbitrary: msp) (simp_all add: draw_segment_def Let_def draw_wall_no_door)

lemma annotate_room_no_door:
  "annotate_room msp room = Inr msp' \<Longrightarrow> filter is_door_entity msp' = filter is_door_entity msp"
  by (auto simp: annotate_room_def Let_def add_dimension_def is_door_entity_def
           split: option.splits prod.splits if_splits)

lemma annotate_no_door:
  "annotate msp rooms = Inr msp' \<Longrightarrow> filter is_door_entity msp' = filter is_door_entity msp"
proof (induction rooms arbitrary: msp)
  case Nil
  then show ?case by simp
next
  case (Cons room rooms)
  from Cons.prems obtain m1 where a: "annotate_room msp room = Inr m1" and b: "annotate m1 rooms = Inr msp'"
    by (auto split: sum.splits)
  show ?case using Cons.IH [OF b] annotate_room_no_door [OF a] by simp
qed

lemma north_arrow_no_door:
  "filter is_door_entity (draw_north_arrow msp x y sz) = filter is_door_entity msp"
  by (simp add: draw_north_arrow_def Let_def is_door_entity_def)

lemma filter_doors_concat:
  "\<forall>s\<in>set ds. filter is_door_entity (door_of s) = door_of s \<Longrightarrow>
   filter is_door_entity (concat (map door_of ds)) = concat (map door_of ds)"
  by (induction ds) simp_all

text \<open>
  Claim C3. In every generated drawing the door entities are the doors of a list of
  canonical segments with one optional entry per room of \<^verbatim>\<open>room_segments\<close>, each
  chosen among that room's own segments: so each room places at most one door. The
  chosen segments are pairwise different: no canonical segment receives more than one
  door. Each of them is classified interior: an exterior segment never receives a door.
  And a room's loop stops at its first success: its result is either the drawing and
  door set unchanged, or exactly one door added for one new interior segment of the
  room.
\<close>

theorem at_most_one_door:
  assumes "generate_ai_detailed_plan rooms plot_width plot_height client_name = Inr msp"
  shows "(\<exists>choice.
           list_all2 chosen_from choice (snd (segment_analysis plot_width plot_height rooms ([], [])))
         \<and> filter is_door_entity msp = concat (map door_of (somes choice))
         \<and> distinct (somes choice)
         \<and> (\<forall>s\<in>set (somes choice).
               classification plot_width plot_height rooms s = Some Interior
               \<and> length (door_of s) = 2))
       \<and> (\<forall>m drawn placed segs m' placed'.
             try_segments m drawn placed segs = Inr (m', placed') \<longrightarrow>
               (m' = m \<and> placed' = placed)
               \<or> (\<exists>s\<in>set segs. s \<notin> placed \<and> map_of drawn s = Some Interior
                     \<and> m' = m @ door_of s \<and> placed' = insert s placed))"
proof -
  obtain drawn rsegs where sa: "segment_analysis plot_width plot_height rooms ([], []) = (drawn, rsegs)"
    by (cases "segment_analysis plot_width plot_height rooms ([], [])")
  let ?walls = "draw_walls plot_width plot_height [] drawn"
  from assms sa obtain m1 pl m2 where
    d: "place_doors ?walls drawn {} rsegs = Inr (m1, pl)" and
    a: "annotate m1 rooms = Inr m2" and
    m: "msp = draw_north_arrow m2 (plot_width + 2) (plot_height - 1) 1.5"
    by (auto simp: generate_ai_detailed_plan_def split: sum.splits)
  from place_doors_result [OF d] obtain choice where ch:
    "list_all2 chosen_from choice rsegs" "m1 = ?walls @ concat (map door_of (somes choice))"
    "distinct (somes choice)"
    "\<forall>s\<in>set (somes choice). map_of drawn s = Some Interior \<and> length (door_of s) = 2
              \<and> filter is_door_entity (door_of s) = door_of s"
    by blast
  have "filter is_door_entity msp = filter is_door_entity m1"
    unfolding m north_arrow_no_door using annotate_no_door [OF a] .
  also have "\<dots> = concat (map door_of (somes choice))"
    unfolding ch(2) using ch(4) by (simp add: draw_walls_no_door filter_doors_concat)
  finally have f: "filter is_door_entity msp = concat (map door_of (somes choice))" .
  have c: "classification plot_width plot_height rooms = map_of drawn"
    by (simp add: classification_def sa)
  have 1: "\<exists>choice.
           list_all2 chosen_from choice (snd (segment_analysis plot_width plot_height rooms ([], [])))
         \<and> filter is_door_entity msp = concat (map door_of (somes choice))
         \<and> distinct (somes choice)
         \<and> (\<forall>s\<in>set (somes choice).
               classification plot_width plot_height rooms s = Some Interior
               \<and> length (door_of s) = 2)"
    using ch(1,3,4) f sa c by (intro exI [of _ choice]) simp
  have 2: "(m' = m \<and> placed' = placed)
           \<or> (\<exists>s\<in>set segs. s \<notin> placed \<and> map_of dr s = Some Interior
                 \<and> m' = m @ door_of s \<and> placed' = insert s placed)"
    if "try_segments m dr placed segs = Inr (m', placed')" for m dr placed segs m' placed'
    using try_segments_result [OF that] by blast
  show ?thesis using 1 2 by blast
qed

lemma round3_small: "round3 0 = 0" "round3 2 = 2" "round3 3 = 3" "round3 4 = 4"
  by (simp_all add: round3_def round_half_even_def)

lemma segment_analysis_two_rooms:
  "segment_analysis 4 3 two_rooms ([], []) =
     ([(((2, 0), (2, 3)), Interior), (((0, 3), (2, 3)), Exterior),
       (((0, 0), (0, 3)), Exterior), (((0, 0), (2, 0)), Exterior),
       (((4, 0), (4, 3)), Exterior), (((2, 3), (4, 3)), Exterior),
       (((2, 0), (4, 0)), Exterior)],
      [(''A'', [((2, 0), (2, 3)), ((0, 3), (2, 3)), ((0, 0), (0, 3)), ((0, 0), (2, 0))]),
       (''B'', [((4, 0), (4, 3)), ((2, 3), (4, 3)), ((2, 0), (2, 3)), ((2, 0), (4, 0))])])"
  by (simp add: two_rooms_def mk_Room_def edges_of_def record_segment_def canonical_seg_def
        round3_small sorted_pair_def pt_less_def is_ext_edge_def Let_def)

lemma sqrt_9_4: "sqrt 9 = 3" "sqrt 4 = 2"
  by (rule real_sqrt_unique; simp add: power2_eq_square)+

lemma atan2_west: "degrees (atan2 0 (- 1)) = 180"
  by (simp add: degrees_def atan2_def)

lemma two_rooms_plan:
  "generate_ai_detailed_plan two_rooms 4 3 ''Mr'' = Inr two_rooms_drawing"
  unfolding generate_ai_detailed_plan_def segment_analysis_two_rooms
  by (simp add: draw_walls_def draw_segment_def offset_dir_of_def draw_wall_with_hatch_def
        WALL_THICKNESS_def sqrt_9_4 Let_def sort_longest_first_def dist_pt_def
        add_door_swing_def atan2_west atan2_axes two_rooms_def mk_Room_def annotate_room_def
        add_dimension_def draw_north_arrow_def two_rooms_drawing_def)

theorem at_most_one_door_witness:
  "generate_ai_detailed_plan two_rooms 4 3 ''Mr'' = Inr two_rooms_drawing
   \<and> filter is_door_entity two_rooms_drawing =
       [Line (2, 21 / 20) (11 / 10, 21 / 20) ''A-DOOR'',
        Arc (2, 21 / 20) (9 / 10) 90 180 ''A-DOOR-SWING'' ''DASHED'']
   \<and> (\<exists>choice.
         list_all2 chosen_from choice (snd (segment_analysis 4 3 two_rooms ([], [])))
         \<and> filter is_door_entity two_rooms_drawing = concat (map door_of (somes choice))
         \<and> distinct (somes choice)
         \<and> (\<forall>s\<in>set (somes choice).
               classification 4 3 two_rooms s = Some Interior \<and> length (door_of s) = 2))"
proof -
  have f: "filter is_door_entity two_rooms_drawing =
       [Line (2, 21 / 20) (11 / 10, 21 / 20) ''A-DOOR'',
        Arc (2, 21 / 20) (9 / 10) 90 180 ''A-DOOR-SWING'' ''DASHED'']"
    by (simp add: two_rooms_drawing_def is_door_entity_def)
  from at_most_one_door [OF two_rooms_plan] f two_rooms_plan
  show ?thesis by blast
qed

section \<open>Further properties of the pipeline\<close>

lemma place_row_band:
  "place_row p_w tw y0 y1 x rs = Inr ps \<Longrightarrow> list_all (in_band y0 y1) ps \<and> list_all has_center ps"
proof (induction rs arbitrary: x ps)
  case Nil
  then show ?case by simp
next
  case (Cons r rest)
  from Cons.prems have tw: "tw \<noteq> 0" by (auto split: if_splits)
  from Cons.prems obtain ps' where
    ps': "place_row p_w tw y0 y1 (end_x_of p_w tw x r rest) rest = Inr ps'"
    "ps = r\<lparr>current_poly := Some (Box x y0 (end_x_of p_w tw x r rest) y1),
           center := Some (centroid (Box x y0 (end_x_of p_w tw x r rest) y1))\<rparr> # ps'"
    unfolding place_row_Cons [OF tw] by (auto split: sum.splits)
  have a: "in_band y0 y1 (hd ps)" and b: "has_center (hd ps)"
    unfolding ps'(2) by (simp_all add: in_band_def has_center_def)
  have "ps = hd ps # ps'" using ps'(2) by simp
  then show ?case using Cons.IH [OF ps'(1)] a b by (metis list.pred_inject(2))
qed

text \<open>
  Row height partition. In every layout the planner returns, the rectangles of the bottom
  row span the heights from \<open>0\<close> to \<open>h_bottom\<close> and those of the top row the heights
  from \<open>h_bottom\<close> to the plot depth: the upper edge of the south row is the lower edge
  of the north row.
\<close>

theorem row_height_partition:
  assumes "generate_layout (p_w, p_d) rooms cs = Inr placed"
  shows "list_all (in_band 0 (h_bottom_of p_d rooms)) (take (length (bottom_rooms_of rooms)) placed)
       \<and> list_all (in_band (h_bottom_of p_d rooms) p_d) (drop (length (bottom_rooms_of rooms)) placed)"
proof -
  let ?B = "bottom_rooms_of rooms" and ?T = "top_rooms_of rooms" and ?h = "h_bottom_of p_d rooms"
  from assms obtain pb pt where
    pb: "place_row p_w (total_w ?B) 0 ?h 0 ?B = Inr pb" and
    pt: "place_row p_w (total_w ?T) ?h p_d 0 ?T = Inr pt" and
    pl: "placed = pb @ pt"
    by (auto simp: generate_layout_def Let_def split: sum.splits)
  have "length pb = length ?B" using place_row_length [OF pb] .
  then show ?thesis using place_row_band [OF pb] place_row_band [OF pt] pl by simp
qed

lemma layout_has_center:
  assumes "generate_layout (p_w, p_d) rooms cs = Inr placed"
  shows "list_all has_center placed"
proof -
  from assms obtain pb pt where
    pb: "place_row p_w (total_w (bottom_rooms_of rooms)) 0 (h_bottom_of p_d rooms) 0 (bottom_rooms_of rooms) = Inr pb" and
    pt: "place_row p_w (total_w (top_rooms_of rooms)) (h_bottom_of p_d rooms) p_d 0 (top_rooms_of rooms) = Inr pt" and
    pl: "placed = pb @ pt"
    by (auto simp: generate_layout_def Let_def split: sum.splits)
  show ?thesis using place_row_band [OF pb] place_row_band [OF pt] pl by simp
qed

lemma dom_record_segment:
  "dom (map_of (record_segment pw ph drawn e)) = insert (canonical_seg (fst e) (snd e)) (dom (map_of drawn))"
  by (auto simp: map_of_record_segment dom_def split: if_splits option.splits)

lemma dom_foldl_record:
  "dom (map_of (foldl (record_segment pw ph) drawn es)) =
     dom (map_of drawn) \<union> (\<lambda>e. canonical_seg (fst e) (snd e)) ` set es"
  by (induction es arbitrary: drawn) (auto simp: dom_record_segment)

lemma set_update_subset: "set (AList.update k v al) \<subseteq> insert (k, v) (set al)"
  by (induction al) auto

lemma segment_analysis_keys:
  "segment_analysis pw ph rooms (drawn, rsegs) = (drawn', rsegs') \<Longrightarrow>
   \<forall>item\<in>set rsegs. set (snd item) \<subseteq> dom (map_of drawn) \<Longrightarrow>
   \<forall>item\<in>set rsegs'. set (snd item) \<subseteq> dom (map_of drawn')"
proof (induction rooms arbitrary: drawn rsegs)
  case Nil
  then show ?case by simp
next
  case (Cons room rooms)
  show ?case
  proof (cases "current_poly room")
    case None
    then show ?thesis using Cons by simp
  next
    case (Some poly)
    let ?edges = "edges_of (exterior_coords poly)"
    let ?rs = "AList.update (name room) (map (\<lambda>e. canonical_seg (fst e) (snd e)) ?edges) rsegs"
    let ?dr = "foldl (record_segment pw ph) drawn ?edges"
    have step: "segment_analysis pw ph rooms (?dr, ?rs) = (drawn', rsegs')"
      using Cons.prems(1) Some by (simp add: Let_def)
    have inv: "\<forall>item\<in>set ?rs. set (snd item) \<subseteq> dom (map_of ?dr)"
    proof
      fix item assume "item \<in> set ?rs"
      then have "item = (name room, map (\<lambda>e. canonical_seg (fst e) (snd e)) ?edges) \<or> item \<in> set rsegs"
        using set_update_subset by fastforce
      then show "set (snd item) \<subseteq> dom (map_of ?dr)"
        using Cons.prems(2) by (auto simp: dom_foldl_record)
    qed
    from Cons.IH [OF step inv] show ?thesis .
  qed
qed

lemma try_segments_total:
  "set segs \<subseteq> dom (map_of drawn) \<Longrightarrow> \<exists>r. try_segments msp drawn placed segs = Inr r"
proof (induction segs)
  case Nil
  then show ?case by simp
next
  case (Cons seg segs)
  then obtain t where t: "map_of drawn seg = Some t" by auto
  from Cons obtain r where r: "try_segments msp drawn placed segs = Inr r" by auto
  from add_door_swing_cases [of msp "fst seg" "snd seg"] show ?case
    using t r by (cases "t = Interior \<and> seg \<notin> placed") auto
qed

lemma place_doors_total:
  "\<forall>item\<in>set items. set (snd item) \<subseteq> dom (map_of drawn) \<Longrightarrow>
   \<exists>r. place_doors msp drawn placed items = Inr r"
proof (induction items arbitrary: msp placed)
  case Nil
  then show ?case by simp
next
  case (Cons item items)
  have "set (sort_longest_first (snd item)) \<subseteq> dom (map_of drawn)"
    using Cons.prems by (simp add: set_sort_longest_first)
  from try_segments_total [OF this] obtain m1 p1 where
    "try_segments msp drawn placed (sort_longest_first (snd item)) = Inr (m1, p1)" by fastforce
  then show ?case using Cons.IH [of m1 p1] Cons.prems by simp
qed

lemma annotate_total:
  "list_all has_center rooms \<Longrightarrow> \<exists>m. annotate msp rooms = Inr m"
proof (induction rooms arbitrary: msp)
  case Nil
  then show ?case by simp
next
  case (Cons room rooms)
  have "\<exists>m1. annotate_room msp room = Inr m1"
    using Cons.prems
    by (auto simp: annotate_room_def has_center_def Let_def split: option.splits prod.splits)
  then show ?case using Cons by auto
qed

lemma drafting_engine_returns:
  assumes "list_all has_center rooms"
  shows "\<exists>msp. generate_ai_detailed_plan rooms plot_width plot_height client_name = Inr msp"
proof -
  obtain drawn rsegs where sa: "segment_analysis plot_width plot_height rooms ([], []) = (drawn, rsegs)"
    by (cases "segment_analysis plot_width plot_height rooms ([], [])")
  have "\<forall>item\<in>set rsegs. set (snd item) \<subseteq> dom (map_of drawn)"
    using segment_analysis_keys [OF sa] by simp
  from place_doors_total [OF this] obtain m1 pl where
    d: "place_doors (draw_walls plot_width plot_height [] drawn) drawn {} rsegs = Inr (m1, pl)"
    by fastforce
  from annotate_total [OF assms] obtain m2 where a: "annotate m1 rooms = Inr m2" by blast
  show ?thesis using sa d a by (simp add: generate_ai_detailed_plan_def)
qed

text \<open>
  The drafting engine raises no exception on a layout of the planner: every segment of
  \<^verbatim>\<open>room_segments\<close> is a key of \<^verbatim>\<open>drawn_segments\<close>, the door width \<open>0.9\<close> keeps the
  divisions away from zero, and every placed room has its centre.
\<close>

theorem planner_output_can_be_drawn:
  assumes "generate_layout plot_size requirements constraints = Inr placed"
  shows "\<exists>msp. generate_ai_detailed_plan placed plot_width plot_height client_name = Inr msp"
  using drafting_engine_returns layout_has_center assms
  by (cases plot_size) blast

lemma two_rooms_layout:
  "generate_layout (4, 3) [mk_Room ''A'' (1, 1) (1, 1), mk_Room ''B'' (1, 1) (1, 1)] [] =
     Inr two_rooms"
  by (simp add: generate_layout_def top_rooms_of_def bottom_rooms_of_def is_top_def lower_def
        sort_key_fn_def h_bottom_of_def h_top_of_def avg_d_def total_w_def Let_def
        two_rooms_def mk_Room_def)

theorem planner_output_can_be_drawn_witness:
  "generate_layout (4, 3) [mk_Room ''A'' (1, 1) (1, 1), mk_Room ''B'' (1, 1) (1, 1)] [] =
     Inr two_rooms
   \<and> (\<exists>msp. generate_ai_detailed_plan two_rooms 4 3 ''Mr'' = Inr msp)"
  using planner_output_can_be_drawn [OF two_rooms_layout] two_rooms_layout by blast

theorem row_height_partition_witness:
  "generate_layout (12, 15) example_rooms [] = Inr example_placed
   \<and> h_bottom_of 15 example_rooms = 240 / 31
   \<and> length (bottom_rooms_of example_rooms) = 2
   \<and> list_all (in_band 0 (240 / 31)) (take 2 example_placed)
   \<and> list_all (in_band (240 / 31) 15) (drop 2 example_placed)"
proof -
  have g: "generate_layout (12, 15) example_rooms [] = Inr example_placed"
    by (simp add: example_layout example_placed_def)
  have n: "length (bottom_rooms_of example_rooms) = 2"
    by (simp add: bottom_rooms_example)
  from row_height_partition [OF g] show ?thesis
    using g n h_bottom_example by simp
qed

end
